theory Spec2Isabelle
  imports Main "HOL-Library.Word" "HOL-Library.Sublist"
begin

section \<open>The response resolver of graphql-go-tools (package resolve)\<close>

text \<open>
  A shallow embedding of the resolver: the shape walker (\<open>resolveNode\<close> and the functions it
  dispatches to), the fetch orchestrator (\<open>resolveFetch\<close>, \<open>prepareSingleFetch\<close>,
  \<open>resolveSingleFetch\<close>), the variable substitutor (\<open>resolveVariables\<close>), the buffer pair
  with its merge operations and the response framer (\<open>ResolveGraphQLResponse\<close>).

  Conventions of the embedding.
  \<^item> A Go byte slice that the code tests against \<open>nil\<close> is a \<open>string option\<close> (\<open>None\<close> is
    \<open>nil\<close>); a \<open>bytes.Buffer\<close> is the \<open>string\<close> of its unread bytes.
  \<^item> \<open>bytes.Buffer.Write\<close> and \<open>WriteTo\<close> into a \<open>bytes.Buffer\<close> always return a nil
    error, so the merge operations return no error. The sink of \<open>ResolveGraphQLResponse\<close> is
    an \<open>io.Writer\<close> whose \<open>Write\<close> may fail.
  \<^item> \<open>*SingleFetch\<close> is an address into a heap of \<open>SingleFetch\<close> objects, because
    \<open>prepareSingleFetch\<close> assigns to \<open>fetch.Input\<close> through the pointer.
  \<^item> A buffer pair taken from \<open>bufPairPool\<close> is empty: every \<open>Put\<close> is preceded by a reset.
  \<^item> The functions of package jsonparser, the data sources and the hash are not part of the
    repository; they are fields of the record \<open>Resolver\<close>, so every theorem holds for all of them.
  \<^item> What the Go runtime leaves open is a field of \<open>Resolver\<close> too: which goroutine of an
    asynchronous array is the first to send its error (\<open>FirstSender\<close>) and the order in which
    \<open>range\<close> visits the buffers of a result set (\<open>RangeOrder\<close>). The writes of the goroutines
    to the fetch objects are taken in index order.
\<close>

subsection \<open>Literals\<close>

definition lBrace :: string where "lBrace = ''{''"
definition rBrace :: string where "rBrace = ''}''"
definition lBrack :: string where "lBrack = ''[''"
definition rBrack :: string where "rBrack = '']''"
definition comma :: string where "comma = '',''"
definition colon :: string where "colon = '':''"
definition quote :: string where "quote = [CHR 0x22]"
definition null :: string where "null = ''null''"
definition literalData :: string where "literalData = ''data''"
definition literalErrors :: string where "literalErrors = ''Errors''"

subsection \<open>Errors, value kinds, shape nodes, fetches, variables\<close>

text \<open>
  \<open>errNonNullableFieldValueIsNull\<close> and \<open>errTypeNameSkipped\<close> are the two error values of the
  package. \<open>ForeignError\<close> is an error value made outside the package, by a data source or by
  the sink: its message, and whether \<open>errors.Is\<close> finds the first and the second of the two in
  it (it wraps that error, or has an \<open>Is\<close> method that accepts it). \<open>DataSourceError\<close> is a
  foreign error in which \<open>errors.Is\<close> finds neither. A data source returns any of these values,
  the two of the package included, and the resolver passes the value on as it is.
\<close>

datatype error = errNonNullableFieldValueIsNull | errTypeNameSkipped | ForeignError string bool bool

abbreviation DataSourceError :: "string \<Rightarrow> error" where
  "DataSourceError message \<equiv> ForeignError message False False"

text \<open>\<open>errors.Is err target\<close> for a target that is one of the two error values of the package.\<close>

fun errorsIs :: "error \<Rightarrow> error \<Rightarrow> bool" where
  "errorsIs (ForeignError message isNonNullable isSkipped) target =
     (ForeignError message isNonNullable isSkipped = target
      \<or> (isNonNullable \<and> target = errNonNullableFieldValueIsNull)
      \<or> (isSkipped \<and> target = errTypeNameSkipped))"
| "errorsIs e target = (e = target)"

text \<open>\<open>jsonparser.ValueType\<close>.\<close>

datatype ValueType = NotExist | vtString | Number | vtObject | vtArray | vtBoolean | vtNull | Unknown

datatype Variable = ContextVariable "string list" | ObjectVariable "string list"

record SingleFetch =
  BufferId :: int
  Input :: string
  DataSource :: nat
  variables :: "Variable list"

text \<open>A \<open>Fetch\<close> holds \<open>*SingleFetch\<close> pointers: addresses into the heap of fetch objects.\<close>

datatype Fetch = SingleFetchPtr nat | ParallelFetch "nat list"

type_synonym heap = "nat \<Rightarrow> SingleFetch"

datatype Node =
    Object bool "string list" "FieldSet list" "Fetch option"
  | EmptyObject
  | Array "string list" bool bool Node
  | EmptyArray
  | Null
  | String "string list" bool
  | Boolean "string list" bool
  | Integer "string list" bool
  | Float "string list" bool
and FieldSet = FieldSet "string option" int bool "Field list"
and Field = Field string Node

fun Nullable :: "Node \<Rightarrow> bool" where
  "Nullable (Object nullable _ _ _) = nullable"
| "Nullable EmptyObject = False"
| "Nullable (Array _ nullable _ _) = nullable"
| "Nullable EmptyArray = False"
| "Nullable Null = True"
| "Nullable (String _ nullable) = nullable"
| "Nullable (Boolean _ nullable) = nullable"
| "Nullable (Integer _ nullable) = nullable"
| "Nullable (Float _ nullable) = nullable"

datatype Context = Context (Variables: "string option")

subsection \<open>BufPair\<close>

record BufPair =
  Data :: string
  Errors :: string

definition getBufPair :: BufPair where
  "getBufPair = \<lparr>Data = [], Errors = []\<rparr>"

definition HasData :: "BufPair \<Rightarrow> bool" where
  "HasData b = (length (Data b) \<noteq> 0)"

definition HasErrors :: "BufPair \<Rightarrow> bool" where
  "HasErrors b = (length (Errors b) \<noteq> 0)"

definition Reset :: "BufPair \<Rightarrow> BufPair" where
  "Reset b = b\<lparr>Data := [], Errors := []\<rparr>"

text \<open>The bytes of a possibly nil slice.\<close>

fun bytes :: "string option \<Rightarrow> string" where
  "bytes None = []"
| "bytes (Some s) = s"

text \<open>
  \<open>MergeBufPairData from to prefixDataWithComma\<close> returns \<open>dataWritten\<close> and both buffers:
  \<open>from.Data.WriteTo(to.Data)\<close> drains \<open>from.Data\<close>.
\<close>

definition MergeBufPairData :: "BufPair \<Rightarrow> BufPair \<Rightarrow> bool \<Rightarrow> nat \<times> BufPair \<times> BufPair" where
  "MergeBufPairData from to prefixDataWithComma =
     (if \<not> HasData from then (0, from, to)
      else if prefixDataWithComma
        then (length comma + length (Data from),
              from\<lparr>Data := []\<rparr>, to\<lparr>Data := Data to @ comma @ Data from\<rparr>)
        else (length (Data from), from\<lparr>Data := []\<rparr>, to\<lparr>Data := Data to @ Data from\<rparr>))"

definition MergeBufPairErrors :: "BufPair \<Rightarrow> BufPair \<Rightarrow> nat \<times> BufPair \<times> BufPair" where
  "MergeBufPairErrors from to =
     (if \<not> HasErrors from then (0, from, to)
      else if HasErrors to
        then (length comma + length (Errors from),
              from\<lparr>Errors := []\<rparr>, to\<lparr>Errors := Errors to @ comma @ Errors from\<rparr>)
        else (length (Errors from), from\<lparr>Errors := []\<rparr>, to\<lparr>Errors := Errors to @ Errors from\<rparr>))"

definition MergeBufPairs :: "BufPair \<Rightarrow> BufPair \<Rightarrow> bool \<Rightarrow> nat \<times> nat \<times> BufPair \<times> BufPair" where
  "MergeBufPairs from to prefixDataWithComma =
     (case MergeBufPairData from to prefixDataWithComma of
        (dataWritten, from1, to1) \<Rightarrow>
          (case MergeBufPairErrors from1 to1 of
             (errorsWritten, from2, to2) \<Rightarrow> (dataWritten, errorsWritten, from2, to2)))"

subsection \<open>The resolver and its collaborators\<close>

text \<open>The fields \<open>err\<close>, \<open>data\<close> and \<open>errors\<close> of an \<open>inflightFetch\<close>.\<close>

record inflightFetch =
  inflight_err :: "error option"
  inflight_data :: "string option"
  inflight_errors :: "string option"

text \<open>
  \<open>Get\<close> is \<open>jsonparser.Get\<close>: the value, its kind and whether the returned error is non-nil.
  \<open>ArrayEach\<close> is \<open>jsonparser.ArrayEach\<close>: the values its callback receives, in order.
  \<open>Load ds input buf\<close> is \<open>DataSource.Load\<close> of data source \<open>ds\<close>: the returned error, if
  any, and the buffer pair as the data source left it.
  \<open>Sum64\<close> is the xxhash digest. \<open>inflightFetches\<close> holds, for every fingerprint with a fetch of
  another caller in flight, the record as a follower reads it once the leader has released
  the wait group.
  \<open>Write w p\<close> is \<open>writer.Write(p)\<close> on the sink of the response when it has taken the bytes
  \<open>w\<close>: the returned error, if any, and the bytes the sink has taken afterwards.
  \<open>FirstSender sent\<close> is the position, in the list of the errors that the goroutines of an
  asynchronous array send to \<open>errCh\<close> (listed by item), of the one sent first; it is read
  modulo the length of the list. \<open>RangeOrder ids\<close> is the order in which \<open>range\<close> visits a map
  with the keys \<open>ids\<close>.
\<close>

record Resolver =
  Get :: "string option \<Rightarrow> string list \<Rightarrow> string option \<times> ValueType \<times> bool"
  ArrayEach :: "string option \<Rightarrow> string list \<Rightarrow> string option list"
  Load :: "nat \<Rightarrow> string \<Rightarrow> BufPair \<Rightarrow> error option \<times> BufPair"
  UniqueIdentifier :: "nat \<Rightarrow> string"
  Sum64 :: "string \<Rightarrow> 64 word"
  inflightFetches :: "64 word \<Rightarrow> inflightFetch option"
  Write :: "string \<Rightarrow> string \<Rightarrow> error option \<times> string"
  FirstSender :: "error list \<Rightarrow> nat"
  RangeOrder :: "int list \<Rightarrow> int list"

text \<open>\<open>Write\<close> of a \<open>bytes.Buffer\<close> that holds the bytes \<open>buf\<close>: it appends and returns no error.\<close>

definition Buffer_Write :: "string \<Rightarrow> string \<Rightarrow> error option \<times> string" where
  "Buffer_Write buf p = (None, buf @ p)"

text \<open>
  \<open>writeSafe err writer data\<close>: the returned error and the writer's bytes. The first argument
  is the \<open>Write\<close> method of the writer.
\<close>

definition writeSafe ::
  "(string \<Rightarrow> string \<Rightarrow> error option \<times> string) \<Rightarrow> error option \<Rightarrow> string \<Rightarrow> string
     \<Rightarrow> error option \<times> string" where
  "writeSafe write e writer bs = (case e of Some x \<Rightarrow> (Some x, writer) | None \<Rightarrow> write writer bs)"

subsection \<open>Scalars and literals\<close>

definition resolveNull :: "BufPair \<Rightarrow> error option \<times> BufPair" where
  "resolveNull b = (case writeSafe Buffer_Write None (Data b) null of (e, w) \<Rightarrow> (e, b\<lparr>Data := w\<rparr>))"

definition resolveEmptyArray :: "BufPair \<Rightarrow> error option \<times> BufPair" where
  "resolveEmptyArray b =
     (case writeSafe Buffer_Write None (Data b) lBrack of
        (e, w) \<Rightarrow> (case writeSafe Buffer_Write e w rBrack of (e1, w1) \<Rightarrow> (e1, b\<lparr>Data := w1\<rparr>)))"

definition resolveEmptyObject :: "BufPair \<Rightarrow> error option \<times> BufPair" where
  "resolveEmptyObject b =
     (case writeSafe Buffer_Write None (Data b) lBrace of
        (e, w) \<Rightarrow> (case writeSafe Buffer_Write e w rBrace of (e1, w1) \<Rightarrow> (e1, b\<lparr>Data := w1\<rparr>)))"

definition resolveInteger ::
  "Resolver \<Rightarrow> string list \<Rightarrow> bool \<Rightarrow> string option \<Rightarrow> BufPair \<Rightarrow> error option \<times> BufPair" where
  "resolveInteger r path nullable data integerBuf =
     (case Get r data path of
        (val, dataType, e) \<Rightarrow>
          if e \<or> dataType \<noteq> Number then
            (if \<not> nullable then (Some errNonNullableFieldValueIsNull, integerBuf)
             else resolveNull integerBuf)
          else (case writeSafe Buffer_Write None (Data integerBuf) (bytes val) of
                  (e1, w) \<Rightarrow> (e1, integerBuf\<lparr>Data := w\<rparr>)))"

definition resolveFloat ::
  "Resolver \<Rightarrow> string list \<Rightarrow> bool \<Rightarrow> string option \<Rightarrow> BufPair \<Rightarrow> error option \<times> BufPair" where
  "resolveFloat r path nullable data integerBuf =
     (case Get r data path of
        (val, dataType, e) \<Rightarrow>
          if e \<or> dataType \<noteq> Number then
            (if \<not> nullable then (Some errNonNullableFieldValueIsNull, integerBuf)
             else resolveNull integerBuf)
          else (case writeSafe Buffer_Write None (Data integerBuf) (bytes val) of
                  (e1, w) \<Rightarrow> (e1, integerBuf\<lparr>Data := w\<rparr>)))"

definition resolveBoolean ::
  "Resolver \<Rightarrow> string list \<Rightarrow> bool \<Rightarrow> string option \<Rightarrow> BufPair \<Rightarrow> error option \<times> BufPair" where
  "resolveBoolean r path nullable data booleanBuf =
     (case Get r data path of
        (val, valueType, e) \<Rightarrow>
          if e \<or> valueType \<noteq> vtBoolean then
            (if \<not> nullable then (Some errNonNullableFieldValueIsNull, booleanBuf)
             else resolveNull booleanBuf)
          else (case writeSafe Buffer_Write None (Data booleanBuf) (bytes val) of
                  (e1, w) \<Rightarrow> (e1, booleanBuf\<lparr>Data := w\<rparr>)))"

definition resolveString ::
  "Resolver \<Rightarrow> string list \<Rightarrow> bool \<Rightarrow> string option \<Rightarrow> BufPair \<Rightarrow> error option \<times> BufPair" where
  "resolveString r path nullable data stringBuf =
     (case Get r data path of
        (val, valueType, e) \<Rightarrow>
          if e \<or> valueType \<noteq> vtString then
            (if \<not> nullable then (Some errNonNullableFieldValueIsNull, stringBuf)
             else resolveNull stringBuf)
          else if data = None \<and> \<not> nullable then (Some errNonNullableFieldValueIsNull, stringBuf)
          else (case writeSafe Buffer_Write None (Data stringBuf) quote of
                  (e1, w1) \<Rightarrow>
                    (case writeSafe Buffer_Write e1 w1 (bytes val) of
                       (e2, w2) \<Rightarrow>
                         (case writeSafe Buffer_Write e2 w2 quote of
                            (e3, w3) \<Rightarrow> (e3, stringBuf\<lparr>Data := w3\<rparr>)))))"

subsection \<open>Variable substitution\<close>

text \<open>\<open>bytes.Index\<close>: the index of the first occurrence of \<open>sep\<close> (\<open>None\<close> is \<open>-1\<close>).\<close>

fun Index :: "string \<Rightarrow> string \<Rightarrow> nat option" where
  "Index [] sep = (if sep = [] then Some 0 else None)"
| "Index (c # cs) sep =
     (if take (length sep) (c # cs) = sep then Some 0 else map_option Suc (Index cs sep))"

text \<open>\<open>strconv.Itoa\<close> on a slice index.\<close>

definition digit :: "nat \<Rightarrow> char" where
  "digit n = char_of (48 + n)"

function Itoa :: "nat \<Rightarrow> string" where
  "Itoa n = (if n < 10 then [digit n] else Itoa (n div 10) @ [digit (n mod 10)])"
  by pat_completeness auto
termination
  by (relation "measure id") auto

definition variableName :: "nat \<Rightarrow> string" where
  "variableName i = ''$$'' @ Itoa i @ ''$$''"

text \<open>
  The inner \<open>for\<close> loop of \<open>resolveVariables\<close>: it replaces the first occurrence of the marker
  until none is left, and does not return when the value itself brings the marker back.
\<close>

partial_function (option) replaceLoop :: "string \<Rightarrow> string \<Rightarrow> string \<Rightarrow> string option" where
  "replaceLoop input name val =
     (case Index input name of
        None \<Rightarrow> Some input
      | Some j \<Rightarrow> replaceLoop (take j input @ val @ drop (j + length name) input) name val)"

declare replaceLoop.simps [code]

fun resolveVariablesFrom ::
  "Resolver \<Rightarrow> Context \<Rightarrow> nat \<Rightarrow> Variable list \<Rightarrow> string option \<Rightarrow> string \<Rightarrow> string option" where
  "resolveVariablesFrom r ctx i [] data input = Some input"
| "resolveVariablesFrom r ctx i (v # vs) data input =
     (case (case v of ContextVariable p \<Rightarrow> (Variables ctx, p) | ObjectVariable p \<Rightarrow> (data, p)) of
        (source, path) \<Rightarrow>
          (case Get r source path of
             (val, dataType, e) \<Rightarrow>
               if e then resolveVariablesFrom r ctx (i + 1) vs data input
               else (case replaceLoop input (variableName i) (bytes val) of
                       None \<Rightarrow> None
                     | Some input1 \<Rightarrow> resolveVariablesFrom r ctx (i + 1) vs data input1)))"

definition resolveVariables ::
  "Resolver \<Rightarrow> Context \<Rightarrow> Variable list \<Rightarrow> string option \<Rightarrow> string \<Rightarrow> string option" where
  "resolveVariables r ctx vars data input = resolveVariablesFrom r ctx 0 vars data input"

subsection \<open>Fetches\<close>

text \<open>
  A \<open>resultSet\<close> is the map \<open>buffers\<close> from buffer ids to buffer pairs, as an association
  list with one entry for a key.
\<close>

type_synonym resultSet = "(int \<times> BufPair) list"

fun setBuffer :: "resultSet \<Rightarrow> int \<Rightarrow> BufPair \<Rightarrow> resultSet" where
  "setBuffer [] k b = [(k, b)]"
| "setBuffer ((k', b') # s) k b = (if k' = k then (k, b) # s else (k', b') # setBuffer s k b)"

definition prepareSingleFetch ::
  "Resolver \<Rightarrow> Context \<Rightarrow> nat \<Rightarrow> string option \<Rightarrow> heap \<Rightarrow> resultSet \<Rightarrow> (heap \<times> resultSet) option" where
  "prepareSingleFetch r ctx fetch data h s =
     (if length (variables (h fetch)) \<noteq> 0 then
        (case resolveVariables r ctx (variables (h fetch)) data (Input (h fetch)) of
           None \<Rightarrow> None
         | Some input \<Rightarrow>
             Some (h(fetch := (h fetch)\<lparr>Input := input\<rparr>), setBuffer s (BufferId (h fetch)) getBufPair))
      else Some (h, setBuffer s (BufferId (h fetch)) getBufPair))"

text \<open>
  \<open>resolveSingleFetch\<close>: the follower copies the leader's record into its buffer pair and returns
  the leader's error; the leader calls \<open>Load\<close>.
\<close>

definition resolveSingleFetch :: "Resolver \<Rightarrow> SingleFetch \<Rightarrow> BufPair \<Rightarrow> error option \<times> BufPair" where
  "resolveSingleFetch r fetch buf =
     (case inflightFetches r (Sum64 r (UniqueIdentifier r (DataSource fetch) @ Input fetch)) of
        Some inflight \<Rightarrow>
          (inflight_err inflight,
           buf\<lparr>Data := Data buf @ bytes (inflight_data inflight),
               Errors := Errors buf @ bytes (inflight_errors inflight)\<rparr>)
      | None \<Rightarrow>
          (case Load r (DataSource fetch) (Input fetch) buf of
             (e, buf1) \<Rightarrow> (e, buf1)))"

fun prepareFetches ::
  "Resolver \<Rightarrow> Context \<Rightarrow> nat list \<Rightarrow> string option \<Rightarrow> heap \<Rightarrow> resultSet \<Rightarrow> (heap \<times> resultSet) option" where
  "prepareFetches r ctx [] data h s = Some (h, s)"
| "prepareFetches r ctx (f # fs) data h s =
     (case prepareSingleFetch r ctx f data h s of
        None \<Rightarrow> None
      | Some (h1, s1) \<Rightarrow> prepareFetches r ctx fs data h1 s1)"

text \<open>
  The goroutines of a \<open>ParallelFetch\<close>; each discards the error of \<open>resolveSingleFetch\<close>.
  \<open>set.buffers[f.BufferId]\<close> exists: \<open>prepareSingleFetch\<close> has stored it.
\<close>

fun resolveFetches :: "Resolver \<Rightarrow> heap \<Rightarrow> nat list \<Rightarrow> resultSet \<Rightarrow> resultSet" where
  "resolveFetches r h [] s = s"
| "resolveFetches r h (f # fs) s =
     (case resolveSingleFetch r (h f) (the (map_of s (BufferId (h f)))) of
        (e, buf1) \<Rightarrow> resolveFetches r h fs (setBuffer s (BufferId (h f)) buf1))"

fun resolveFetch ::
  "Resolver \<Rightarrow> Context \<Rightarrow> Fetch \<Rightarrow> string option \<Rightarrow> heap \<Rightarrow> resultSet
     \<Rightarrow> (error option \<times> heap \<times> resultSet) option" where
  "resolveFetch r ctx (SingleFetchPtr f) data h s =
     (case prepareSingleFetch r ctx f data h s of
        None \<Rightarrow> None
      | Some (h1, s1) \<Rightarrow>
          (case resolveSingleFetch r (h1 f) (the (map_of s1 (BufferId (h1 f)))) of
             (e, buf1) \<Rightarrow> Some (e, h1, setBuffer s1 (BufferId (h1 f)) buf1)))"
| "resolveFetch r ctx (ParallelFetch fs) data h s =
     (case prepareFetches r ctx fs data h s of
        None \<Rightarrow> None
      | Some (h1, s1) \<Rightarrow> Some (None, h1, resolveFetches r h1 fs s1))"

text \<open>
  The keys of \<open>set.buffers\<close> in the order in which \<open>range\<close> visits them: the order the runtime
  chooses, which is a rearrangement of the keys.
\<close>

definition rangeKeys :: "Resolver \<Rightarrow> resultSet \<Rightarrow> int list" where
  "rangeKeys r s =
     (if sort (RangeOrder r (map fst s)) = sort (map fst s) then RangeOrder r (map fst s)
      else map fst s)"

text \<open>The loop \<open>for i := range set.buffers\<close> of \<open>resolveObject\<close>, over the keys in that order.\<close>

fun mergeFetchErrors_loop :: "int list \<Rightarrow> resultSet \<Rightarrow> BufPair \<Rightarrow> resultSet \<times> BufPair" where
  "mergeFetchErrors_loop [] s objectBuf = (s, objectBuf)"
| "mergeFetchErrors_loop (k # ks) s objectBuf =
     (case map_of s k of
        None \<Rightarrow> mergeFetchErrors_loop ks s objectBuf
      | Some b \<Rightarrow>
          (case MergeBufPairErrors b objectBuf of
             (n, b1, objectBuf1) \<Rightarrow> mergeFetchErrors_loop ks (setBuffer s k b1) objectBuf1))"

definition mergeFetchErrors :: "Resolver \<Rightarrow> resultSet \<Rightarrow> BufPair \<Rightarrow> resultSet \<times> BufPair" where
  "mergeFetchErrors r s objectBuf = mergeFetchErrors_loop (rangeKeys r s) s objectBuf"

subsection \<open>Arrays\<close>

type_synonym result = "error option \<times> heap \<times> BufPair"

text \<open>
  The loops of the array functions take the resolution of one item,
  \<open>resolveNode ctx array.Item\<close>, as an argument. \<open>None\<close> is a call that does not return.
\<close>

type_synonym itemResolver = "string option \<Rightarrow> heap \<Rightarrow> BufPair \<Rightarrow> result option"

fun resolveArraySynchronous_loop ::
  "itemResolver \<Rightarrow> bool \<Rightarrow> string option list \<Rightarrow> heap \<Rightarrow> BufPair \<Rightarrow> BufPair \<Rightarrow> bool
     \<Rightarrow> result option" where
  "resolveArraySynchronous_loop item nullable [] h itemBuf arrayBuf hasPreviousItem =
     (case writeSafe Buffer_Write None (Data arrayBuf) rBrack of
        (e, w) \<Rightarrow> Some (e, h, arrayBuf\<lparr>Data := w\<rparr>))"
| "resolveArraySynchronous_loop item nullable (x # xs) h itemBuf arrayBuf hasPreviousItem =
     (case item x h itemBuf of
        None \<Rightarrow> None
      | Some (Some e, h1, itemBuf1) \<Rightarrow>
          if errorsIs e errNonNullableFieldValueIsNull \<and> nullable then
            (case resolveNull (arrayBuf\<lparr>Data := []\<rparr>) of (e1, arrayBuf1) \<Rightarrow> Some (e1, h1, arrayBuf1))
          else if errorsIs e errTypeNameSkipped then
            resolveArraySynchronous_loop item nullable xs h1 itemBuf1 arrayBuf hasPreviousItem
          else Some (Some e, h1, arrayBuf)
      | Some (None, h1, itemBuf1) \<Rightarrow>
          (case MergeBufPairs itemBuf1 arrayBuf hasPreviousItem of
             (dataWritten, errorsWritten, itemBuf2, arrayBuf1) \<Rightarrow>
               resolveArraySynchronous_loop item nullable xs h1 itemBuf2 arrayBuf1
                 (if \<not> hasPreviousItem \<and> dataWritten \<noteq> 0 then True else hasPreviousItem)))"

definition resolveArraySynchronous ::
  "itemResolver \<Rightarrow> bool \<Rightarrow> string option list \<Rightarrow> heap \<Rightarrow> BufPair \<Rightarrow> result option" where
  "resolveArraySynchronous item nullable arrayItems h arrayBuf =
     (case writeSafe Buffer_Write None (Data arrayBuf) lBrack of
        (e, w) \<Rightarrow>
          resolveArraySynchronous_loop item nullable arrayItems h getBufPair
            (arrayBuf\<lparr>Data := w\<rparr>) False)"

text \<open>
  The goroutines of \<open>resolveArrayAsynchronous\<close>: the errors they send to \<open>errCh\<close>, listed by
  item, the heap and \<open>bufSlice\<close>.
\<close>

fun resolveArrayAsynchronous_tasks ::
  "itemResolver \<Rightarrow> string option list \<Rightarrow> heap \<Rightarrow> (error list \<times> heap \<times> BufPair list) option" where
  "resolveArrayAsynchronous_tasks item [] h = Some ([], h, [])"
| "resolveArrayAsynchronous_tasks item (x # xs) h =
     (case item x h getBufPair of
        None \<Rightarrow> None
      | Some (e, h1, itemBuf) \<Rightarrow>
          (case resolveArrayAsynchronous_tasks item xs h1 of
             None \<Rightarrow> None
           | Some (sent, h2, bufSlice) \<Rightarrow>
               Some ((case e of
                        Some e1 \<Rightarrow> if \<not> errorsIs e1 errTypeNameSkipped then e1 # sent else sent
                      | None \<Rightarrow> sent),
                     h2, itemBuf # bufSlice)))"

fun resolveArrayAsynchronous_merge :: "BufPair list \<Rightarrow> BufPair \<Rightarrow> bool \<Rightarrow> BufPair" where
  "resolveArrayAsynchronous_merge [] arrayBuf hasPreviousItem = arrayBuf"
| "resolveArrayAsynchronous_merge (b # bs) arrayBuf hasPreviousItem =
     (case MergeBufPairs b arrayBuf hasPreviousItem of
        (dataWritten, errorsWritten, b1, arrayBuf1) \<Rightarrow>
          resolveArrayAsynchronous_merge bs arrayBuf1
            (if \<not> hasPreviousItem \<and> dataWritten \<noteq> 0 then True else hasPreviousItem))"

text \<open>
  The receive from \<open>errCh\<close> after \<open>wg.Wait()\<close>: the channel has one slot and the sends do not
  block, so it holds the error that was sent first, if any was sent.
\<close>

definition errChReceive :: "Resolver \<Rightarrow> error list \<Rightarrow> error option" where
  "errChReceive r sent =
     (if sent = [] then None else Some (sent ! (FirstSender r sent mod length sent)))"

definition resolveArrayAsynchronous ::
  "Resolver \<Rightarrow> itemResolver \<Rightarrow> bool \<Rightarrow> string option list \<Rightarrow> heap \<Rightarrow> BufPair \<Rightarrow> result option" where
  "resolveArrayAsynchronous r item nullable arrayItems h arrayBuf =
     (case writeSafe Buffer_Write None (Data arrayBuf) lBrack of
        (e0, w) \<Rightarrow>
          (case resolveArrayAsynchronous_tasks item arrayItems h of
             None \<Rightarrow> None
           | Some (sent, h1, bufSlice) \<Rightarrow>
               (case errChReceive r sent of
                  Some e \<Rightarrow>
                    if errorsIs e errNonNullableFieldValueIsNull \<and> nullable then
                      (case resolveNull (arrayBuf\<lparr>Data := w\<rparr>\<lparr>Data := []\<rparr>) of
                         (e1, arrayBuf1) \<Rightarrow> Some (e1, h1, arrayBuf1))
                    else Some (Some e, h1, arrayBuf\<lparr>Data := w\<rparr>)
                | None \<Rightarrow>
                    (case resolveArrayAsynchronous_merge bufSlice (arrayBuf\<lparr>Data := w\<rparr>) False of
                       arrayBuf1 \<Rightarrow>
                         (case writeSafe Buffer_Write e0 (Data arrayBuf1) rBrack of
                            (e1, w1) \<Rightarrow> Some (e1, h1, arrayBuf1\<lparr>Data := w1\<rparr>))))))"

definition resolveArray ::
  "Resolver \<Rightarrow> itemResolver \<Rightarrow> string list \<Rightarrow> bool \<Rightarrow> bool \<Rightarrow> string option \<Rightarrow> heap \<Rightarrow> BufPair
     \<Rightarrow> result option" where
  "resolveArray r item path nullable resolveAsynchronous data h arrayBuf =
     (if length (ArrayEach r data path) = 0 then
        (if \<not> nullable then Some (Some errNonNullableFieldValueIsNull, h, arrayBuf)
         else (case resolveNull arrayBuf of (e, arrayBuf1) \<Rightarrow> Some (e, h, arrayBuf1)))
      else if resolveAsynchronous then
        resolveArrayAsynchronous r item nullable (ArrayEach r data path) h arrayBuf
      else resolveArraySynchronous item nullable (ArrayEach r data path) h arrayBuf)"

subsection \<open>The shape walker\<close>

text \<open>
  \<open>resolveNode\<close> with \<open>resolveObject\<close> as its \<open>Object\<close> case. \<open>resolveFieldSets\<close> is the loop
  over \<open>object.FieldSets\<close> followed by the code after it; \<open>resolveFields\<close> is the loop over the
  fields of one field set, which goes on with the remaining field sets. Their arguments are the
  local variables of \<open>resolveObject\<close>: \<open>set\<close> (\<open>None\<close> is the nil pointer), \<open>data\<close>,
  \<open>objectBuf\<close>, \<open>fieldBuf\<close>, \<open>typeNameSkip\<close> and \<open>first\<close>.
\<close>

function (sequential)
  resolveNode :: "Resolver \<Rightarrow> Context \<Rightarrow> Node \<Rightarrow> string option \<Rightarrow> heap \<Rightarrow> BufPair \<Rightarrow> result option"
and resolveFieldSets ::
  "Resolver \<Rightarrow> Context \<Rightarrow> bool \<Rightarrow> FieldSet list \<Rightarrow> resultSet option \<Rightarrow> string option \<Rightarrow> heap
     \<Rightarrow> BufPair \<Rightarrow> BufPair \<Rightarrow> bool \<Rightarrow> bool \<Rightarrow> result option"
and resolveFields ::
  "Resolver \<Rightarrow> Context \<Rightarrow> bool \<Rightarrow> Field list \<Rightarrow> string option \<Rightarrow> FieldSet list
     \<Rightarrow> resultSet option \<Rightarrow> string option \<Rightarrow> heap \<Rightarrow> BufPair \<Rightarrow> BufPair \<Rightarrow> bool \<Rightarrow> bool
     \<Rightarrow> result option"
where
  "resolveNode r ctx (Object nullable path fieldSets fetch) data h objectBuf =
     (case (if length path \<noteq> 0 then fst (Get r data path) else data) of
        data1 \<Rightarrow>
          (case fetch of
             None \<Rightarrow>
               resolveFieldSets r ctx nullable fieldSets None data1 h objectBuf getBufPair False True
           | Some f \<Rightarrow>
               (case resolveFetch r ctx f data1 h [] of
                  None \<Rightarrow> None
                | Some (Some e, h1, s) \<Rightarrow> Some (Some e, h1, objectBuf)
                | Some (None, h1, s) \<Rightarrow>
                    (case mergeFetchErrors r s objectBuf of
                       (s1, objectBuf1) \<Rightarrow>
                         resolveFieldSets r ctx nullable fieldSets (Some s1) data1 h1 objectBuf1
                           getBufPair False True))))"
| "resolveNode r ctx (Array path nullable resolveAsynchronous item) data h bufPair =
     resolveArray r (\<lambda>itemData h1 itemBuf. resolveNode r ctx item itemData h1 itemBuf)
       path nullable resolveAsynchronous data h bufPair"
| "resolveNode r ctx Null data h bufPair =
     (case resolveNull bufPair of (e, b) \<Rightarrow> Some (e, h, b))"
| "resolveNode r ctx (String path nullable) data h bufPair =
     (case resolveString r path nullable data bufPair of (e, b) \<Rightarrow> Some (e, h, b))"
| "resolveNode r ctx (Boolean path nullable) data h bufPair =
     (case resolveBoolean r path nullable data bufPair of (e, b) \<Rightarrow> Some (e, h, b))"
| "resolveNode r ctx (Integer path nullable) data h bufPair =
     (case resolveInteger r path nullable data bufPair of (e, b) \<Rightarrow> Some (e, h, b))"
| "resolveNode r ctx (Float path nullable) data h bufPair =
     (case resolveFloat r path nullable data bufPair of (e, b) \<Rightarrow> Some (e, h, b))"
| "resolveNode r ctx EmptyObject data h bufPair =
     (case resolveEmptyObject bufPair of (e, b) \<Rightarrow> Some (e, h, b))"
| "resolveNode r ctx EmptyArray data h bufPair =
     (case resolveEmptyArray bufPair of (e, b) \<Rightarrow> Some (e, h, b))"
| "resolveFieldSets r ctx nullable [] s data h objectBuf fieldBuf typeNameSkip first =
     (if first then
        (if \<not> nullable then
           (if typeNameSkip then Some (Some errTypeNameSkipped, h, objectBuf)
            else Some (Some errNonNullableFieldValueIsNull, h, objectBuf))
         else (case resolveNull objectBuf of (e, b) \<Rightarrow> Some (e, h, b)))
      else (case writeSafe Buffer_Write None (Data objectBuf) rBrace of
              (e, w) \<Rightarrow> Some (e, h, objectBuf\<lparr>Data := w\<rparr>)))"
| "resolveFieldSets r ctx nullable (FieldSet onTypeName bufferID hasBuffer fieldList # rest)
       s data h objectBuf fieldBuf typeNameSkip first =
     (case (case s of
              Some bufs \<Rightarrow>
                if hasBuffer then
                  (case map_of bufs bufferID of
                     Some buffer \<Rightarrow> Some (Data buffer)
                   | None \<Rightarrow> None)
                else data
            | None \<Rightarrow> data) of
        fieldSetData \<Rightarrow>
          (case onTypeName of
             Some expected \<Rightarrow>
               if bytes (fst (Get r fieldSetData [''__typename''])) \<noteq> expected then
                 resolveFieldSets r ctx nullable rest s data h objectBuf fieldBuf True first
               else resolveFields r ctx nullable fieldList fieldSetData rest s data h objectBuf
                      fieldBuf typeNameSkip first
           | None \<Rightarrow>
               resolveFields r ctx nullable fieldList fieldSetData rest s data h objectBuf
                 fieldBuf typeNameSkip first))"
| "resolveFields r ctx nullable [] fieldSetData rest s data h objectBuf fieldBuf typeNameSkip first =
     resolveFieldSets r ctx nullable rest s data h objectBuf fieldBuf typeNameSkip first"
| "resolveFields r ctx nullable (Field name val # fieldList) fieldSetData rest s data h objectBuf
       fieldBuf typeNameSkip first =
     (case writeSafe Buffer_Write None (Data objectBuf) (if first then lBrace else comma) of
        (e1, w1) \<Rightarrow>
     (case writeSafe Buffer_Write e1 w1 quote of
        (e2, w2) \<Rightarrow>
     (case writeSafe Buffer_Write e2 w2 name of
        (e3, w3) \<Rightarrow>
     (case writeSafe Buffer_Write e3 w3 quote of
        (e4, w4) \<Rightarrow>
     (case writeSafe Buffer_Write e4 w4 colon of
        (Some e, w5) \<Rightarrow> Some (Some e, h, objectBuf\<lparr>Data := w5\<rparr>)
      | (None, w5) \<Rightarrow>
          (case resolveNode r ctx val fieldSetData h fieldBuf of
             None \<Rightarrow> None
           | Some (Some e, h1, fieldBuf1) \<Rightarrow>
               if errorsIs e errNonNullableFieldValueIsNull \<and> nullable then
                 (case writeSafe Buffer_Write None [] null of
                    (e6, w6) \<Rightarrow> Some (e6, h1, objectBuf\<lparr>Data := w6\<rparr>))
               else Some (Some e, h1, objectBuf\<lparr>Data := w5\<rparr>)
           | Some (None, h1, fieldBuf1) \<Rightarrow>
               (case MergeBufPairs fieldBuf1 (objectBuf\<lparr>Data := w5\<rparr>) False of
                  (dataWritten, errorsWritten, fieldBuf2, objectBuf1) \<Rightarrow>
                    resolveFields r ctx nullable fieldList fieldSetData rest s data h1 objectBuf1
                      fieldBuf2 typeNameSkip False)))))))"
  by pat_completeness auto
termination
  by (relation "measure (\<lambda>x. case x of
        Inl (r, ctx, n, rest) \<Rightarrow> 2 * size n
      | Inr (Inl (r, ctx, nullable, fieldSets, rest)) \<Rightarrow> 2 * size_list size fieldSets
      | Inr (Inr (r, ctx, nullable, fieldList, fieldSetData, restSets, rest)) \<Rightarrow>
          2 * (size_list size fieldList + size_list size restSets) + 1)") auto

subsection \<open>The response framer\<close>

text \<open>
  \<open>ResolveGraphQLResponse\<close>; \<open>response\<close> stands for \<open>response.Data\<close> and \<open>writer\<close> for the
  bytes the sink has taken. \<open>buf.Errors.WriteTo(writer)\<close> and \<open>buf.Data.WriteTo(writer)\<close> call
  \<open>writer.Write\<close> once, on a buffer that is not empty, and their error replaces \<open>err\<close>.
\<close>

definition ResolveGraphQLResponse ::
  "Resolver \<Rightarrow> Context \<Rightarrow> Node \<Rightarrow> string option \<Rightarrow> heap \<Rightarrow> string
     \<Rightarrow> (error option \<times> heap \<times> string) option" where
  "ResolveGraphQLResponse r ctx response data h writer =
     (case resolveNode r ctx response data h getBufPair of
        None \<Rightarrow> None
      | Some (Some e, h1, buf) \<Rightarrow> Some (Some e, h1, writer)
      | Some (None, h1, buf) \<Rightarrow>
          (case writeSafe (Write r) None writer lBrace of
             (e0, w0) \<Rightarrow>
               (case (if length (Errors buf) \<noteq> 0 then
                        (case writeSafe (Write r) e0 w0 quote of (e1, w1) \<Rightarrow>
                         (case writeSafe (Write r) e1 w1 literalErrors of (e2, w2) \<Rightarrow>
                          (case writeSafe (Write r) e2 w2 quote of (e3, w3) \<Rightarrow>
                           (case writeSafe (Write r) e3 w3 colon of (e4, w4) \<Rightarrow>
                            (case writeSafe (Write r) e4 w4 lBrack of (e5, w5) \<Rightarrow>
                             (case Write r w5 (Errors buf) of (e6, w6) \<Rightarrow>
                                writeSafe (Write r) e6 w6 rBrack))))))
                      else (e0, w0)) of
                  (e7, w7) \<Rightarrow>
                    (case (if length (Data buf) \<noteq> 0 then
                             (case (if length (Errors buf) \<noteq> 0 then writeSafe (Write r) e7 w7 comma
                                    else (e7, w7)) of (e8, w8) \<Rightarrow>
                              (case writeSafe (Write r) e8 w8 quote of (e9, w9) \<Rightarrow>
                               (case writeSafe (Write r) e9 w9 literalData of (e10, w10) \<Rightarrow>
                                (case writeSafe (Write r) e10 w10 quote of (e11, w11) \<Rightarrow>
                                 (case writeSafe (Write r) e11 w11 colon of (e12, w12) \<Rightarrow>
                                    Write r w12 (Data buf))))))
                           else (e7, w7)) of
                       (e13, w13) \<Rightarrow>
                         (case writeSafe (Write r) e13 w13 rBrace of
                            (e14, w14) \<Rightarrow> Some (e14, h1, w14))))))"

subsection \<open>What the specification expects of a scalar\<close>

text \<open>
  Stated from the specification's words on scalar resolution: extract at the path; when the
  extraction fails or the kind is not the wanted one, emit \<open>null\<close> if nullable and fail with
  \<open>NonNullableFieldIsNull\<close> otherwise; else write the value's bytes, wrapped by \<open>wrap\<close>.
\<close>

definition scalarSpec ::
  "Resolver \<Rightarrow> ValueType \<Rightarrow> (string \<Rightarrow> string) \<Rightarrow> string list \<Rightarrow> bool \<Rightarrow> string option \<Rightarrow> heap
     \<Rightarrow> BufPair \<Rightarrow> result option" where
  "scalarSpec r wanted wrap path nullable data h buf =
     (case Get r data path of
        (val, kind, failed) \<Rightarrow>
          if failed \<or> kind \<noteq> wanted then
            (if nullable then Some (None, h, buf\<lparr>Data := Data buf @ ''null''\<rparr>)
             else Some (Some errNonNullableFieldValueIsNull, h, buf))
          else Some (None, h, buf\<lparr>Data := Data buf @ wrap (bytes val)\<rparr>))"

definition inQuotes :: "string \<Rightarrow> string" where
  "inQuotes s = [CHR 0x22] @ s @ [CHR 0x22]"

definition raw :: "string \<Rightarrow> string" where
  "raw s = s"

subsection \<open>Example inputs\<close>

text \<open>
  A resolver whose collaborators are given by tables, for the examples below. Its sink takes
  every write, the first error sent to \<open>errCh\<close> is the one of the lowest item, and \<open>range\<close>
  visits the buffers in the order in which they were stored. Every entry of
  \<open>demoGet\<close> and \<open>demoArrayEach\<close> is what jsonparser returns for that document and path; for a
  document and path outside the tables the key is reported as not found, which is what jsonparser
  does for the other lookups the examples make (a key missing from \<open>{}\<close>, any key in nil data).
\<close>

definition demoGet :: "string option \<Rightarrow> string list \<Rightarrow> string option \<times> ValueType \<times> bool" where
  \<open>demoGet data path =
     (case map_of
        [((Some ''{"greeting":"world"}'', [''greeting'']), (Some ''world'', vtString)),
         ((Some ''{"owner":{"__typename":"Org"}}'', [''owner'']),
            (Some ''{"__typename":"Org"}'', vtObject)),
         ((Some ''{"__typename":"Org"}'', [''__typename'']), (Some ''Org'', vtString)),
         ((Some ''{"name":"Bob"}'', [''name'']), (Some ''Bob'', vtString)),
         ((Some ''{"name":"Ann"}'', [''name'']), (Some ''Ann'', vtString)),
         ((Some ''{"b":"x"}'', [''b'']), (Some ''x'', vtString)),
         ((Some ''{"id":1}'', [''id'']), (Some ''1'', Number)),
         ((Some ''{"id":2}'', [''id'']), (Some ''2'', Number))]
        (data, path) of
        Some (val, kind) \<Rightarrow> (val, kind, False)
      | None \<Rightarrow> (None, NotExist, True))\<close>

definition demoArrayEach :: "string option \<Rightarrow> string list \<Rightarrow> string option list" where
  \<open>demoArrayEach data path =
     (if data = Some ''{"pets":[{"owner":{"__typename":"Org"}}]}'' \<and> path = [''pets'']
      then [Some ''{"owner":{"__typename":"Org"}}'']
      else if data = Some ''{"pets":[{"b":"x"},{}]}'' \<and> path = [''pets'']
      then [Some ''{"b":"x"}'', Some ''{}'']
      else [])\<close>

text \<open>
  Data source 0 answers \<open>{"name":"Ann"}\<close>; data source 1 fails with the error \<open>boom\<close>; data
  source 3 fails with the error value \<open>errNonNullableFieldValueIsNull\<close> of the package (which
  a caller of \<open>ResolveGraphQLResponse\<close> can hold); every other data source answers \<open>{}\<close>
  together with one entry for the error list.
\<close>

definition demoLoad :: "nat \<Rightarrow> string \<Rightarrow> BufPair \<Rightarrow> error option \<times> BufPair" where
  \<open>demoLoad ds input buf =
     (if ds = 0 then (None, buf\<lparr>Data := Data buf @ ''{"name":"Ann"}''\<rparr>)
      else if ds = 1 then (Some (DataSourceError ''boom''), buf)
      else if ds = 3 then (Some errNonNullableFieldValueIsNull, buf)
      else (None, buf\<lparr>Data := Data buf @ ''{}'', Errors := Errors buf @ ''{"message":"boom"}''\<rparr>))\<close>

definition demo :: Resolver where
  "demo = \<lparr>Get = demoGet, ArrayEach = demoArrayEach, Load = demoLoad,
            UniqueIdentifier = (\<lambda>ds. ''ds''), Sum64 = (\<lambda>bs. 0),
            inflightFetches = (\<lambda>fetchID. None), Write = Buffer_Write,
            FirstSender = (\<lambda>sent. 0), RangeOrder = (\<lambda>ids. ids)\<rparr>"

text \<open>The same resolver with data sources that write the same bytes and return no error.\<close>

definition demoQuiet :: Resolver where
  "demoQuiet = demo\<lparr>Load := (\<lambda>ds input buf. (None, snd (demoLoad ds input buf)))\<rparr>"

text \<open>
  The fetch objects of the examples: at address 0 a fetch with one context variable, at
  addresses 1, 2, 3 and 4 fetches without variables on data sources 1, 2, 0 and 3; the fetch
  at address 1 fills buffer 1, the others buffer 0.
\<close>

definition demoHeap :: heap where
  \<open>demoHeap f =
     (if f = 0 then
        \<lparr>BufferId = 0, Input = ''{"id":$$0$$}'', DataSource = 0,
         variables = [ContextVariable [''id'']]\<rparr>
      else if f = 1 then \<lparr>BufferId = 1, Input = [], DataSource = 1, variables = []\<rparr>
      else if f = 2 then \<lparr>BufferId = 0, Input = [], DataSource = 2, variables = []\<rparr>
      else if f = 4 then \<lparr>BufferId = 0, Input = [], DataSource = 3, variables = []\<rparr>
      else \<lparr>BufferId = 0, Input = [], DataSource = 0, variables = []\<rparr>)\<close>

text \<open>
  Shapes of the examples. \<open>helloShape\<close> is an object with one required string. \<open>petItem\<close> is
  the item of a list of pets whose \<open>owner\<close> selects fields on the type \<open>Person\<close> only.
  \<open>guarded\<close> is a nullable object that fetches from data source 2 and requires a \<open>name\<close> the
  answer does not have; \<open>guardedItem\<close> puts it beside a required string \<open>b\<close>.
\<close>

definition helloShape :: "bool \<Rightarrow> Node" where
  "helloShape nullable =
     Object nullable [] [FieldSet None 0 False [Field ''hello'' (String [''greeting''] False)]] None"

definition petItem :: Node where
  "petItem =
     Object False []
       [FieldSet None 0 False
          [Field ''owner''
             (Object False [''owner'']
                [FieldSet (Some ''Person'') 0 False [Field ''name'' (String [''name''] False)]]
                None)]]
       None"

definition guarded :: Node where
  "guarded =
     Object True [] [FieldSet None 0 True [Field ''name'' (String [''name''] False)]]
       (Some (SingleFetchPtr 2))"

definition guardedItem :: Node where
  "guardedItem =
     Object False []
       [FieldSet None 0 False [Field ''a'' guarded, Field ''b'' (String [''b''] False)]] None"

text \<open>
  An object that fetches into buffer 0 (the fetch at address 3) and whose only field set reads
  buffer \<open>bufferID\<close> if \<open>hasBuffer\<close>.
\<close>

definition nameShape :: "int \<Rightarrow> bool \<Rightarrow> Node" where
  "nameShape bufferID hasBuffer =
     Object False [] [FieldSet None bufferID hasBuffer [Field ''name'' (String [''name''] True)]]
       (Some (SingleFetchPtr 3))"

text \<open>
  \<open>guardedRoot\<close> is a nullable object around \<open>guardedItem\<close>. \<open>leaking\<close> is a nullable object
  whose fetch (at address 4) fails with \<open>errNonNullableFieldValueIsNull\<close>.
\<close>

definition guardedRoot :: Node where
  "guardedRoot = Object True [] [FieldSet None 0 False [Field ''x'' guardedItem]] None"

definition leaking :: Node where
  "leaking = Object True [] [] (Some (SingleFetchPtr 4))"

definition idShape :: Node where
  "idShape =
     Object False [] [FieldSet None 0 True [Field ''name'' (String [''name''] False)]]
       (Some (SingleFetchPtr 0))"

subsection \<open>Notions used to state the properties\<close>

text \<open>
  Stated from the specification's words on the envelope: \<open>{\<close>, the error list under the key
  \<open>"Errors"\<close> if there are errors, the data under the key \<open>"data"\<close> if there is data, after a
  comma if errors came first, and \<open>}\<close>.
\<close>

definition envelope :: "BufPair \<Rightarrow> string" where
  \<open>envelope buf =
     ''{'' @ (if Errors buf \<noteq> [] then ''"Errors":['' @ Errors buf @ '']'' else [])
       @ (if Data buf \<noteq> [] then (if Errors buf \<noteq> [] then '','' else []) @ ''"data":'' @ Data buf
          else [])
       @ ''}''\<close>

text \<open>
  Two resolvers whose collaborators give the same bytes: they differ at most in the errors that
  \<open>Load\<close> returns and that the records of fetches in flight hold.
\<close>

definition sameBytes :: "Resolver \<Rightarrow> Resolver \<Rightarrow> bool" where
  "sameBytes r r' \<longleftrightarrow>
     Get r' = Get r \<and> ArrayEach r' = ArrayEach r \<and> UniqueIdentifier r' = UniqueIdentifier r
     \<and> Sum64 r' = Sum64 r
     \<and> (\<forall>fetchID. map_option inflight_data (inflightFetches r' fetchID)
                     = map_option inflight_data (inflightFetches r fetchID)
                 \<and> map_option inflight_errors (inflightFetches r' fetchID)
                     = map_option inflight_errors (inflightFetches r fetchID))
     \<and> (\<forall>ds input buf. snd (Load r' ds input buf) = snd (Load r ds input buf))"

text \<open>The error that the fetch of the node itself returns, for an object with a fetch.\<close>

fun ownFetchError :: "Resolver \<Rightarrow> Context \<Rightarrow> Node \<Rightarrow> string option \<Rightarrow> heap \<Rightarrow> error option" where
  "ownFetchError r ctx (Object nullable path fieldSets (Some fetch)) data h =
     (case resolveFetch r ctx fetch (if length path \<noteq> 0 then fst (Get r data path) else data) h [] of
        Some (Some e, h1, s) \<Rightarrow> Some e
      | _ \<Rightarrow> None)"
| "ownFetchError r ctx n data h = None"

text \<open>What \<open>resolveObject\<close> writes in front of a field's value.\<close>

definition fieldStart :: "bool \<Rightarrow> string \<Rightarrow> string" where
  "fieldStart first name = (if first then ''{'' else '','') @ inQuotes name @ '':''"

text \<open>\<open>Input\<close> of the fetch object at address \<open>f\<close> when a call has returned.\<close>

definition inputAfter :: "nat \<Rightarrow> (error option \<times> heap \<times> 'a) option \<Rightarrow> string option" where
  "inputAfter f res = map_option (\<lambda>(e, h, w). Input (h f)) res"

text \<open>The heap of fetch objects when a call has returned (the heap it started from if it did not).\<close>

definition heapAfter :: "heap \<Rightarrow> (error option \<times> heap \<times> 'a) option \<Rightarrow> heap" where
  "heapAfter h res = (case res of Some (e, h1, w) \<Rightarrow> h1 | None \<Rightarrow> h)"

text \<open>Every item of the list resolves without an error, each into an empty buffer pair.\<close>

fun itemsSucceed :: "itemResolver \<Rightarrow> string option list \<Rightarrow> heap \<Rightarrow> bool" where
  "itemsSucceed item [] h = True"
| "itemsSucceed item (x # xs) h =
     (case item x h getBufPair of
        Some (None, h1, itemBuf) \<Rightarrow> itemsSucceed item xs h1
      | _ \<Rightarrow> False)"

section \<open>Properties\<close>

subsection \<open>Auxiliary facts\<close>

lemmas literal_defs = lBrace_def rBrace_def lBrack_def rBrack_def comma_def colon_def
  quote_def null_def literalData_def literalErrors_def

lemmas run_defs = ResolveGraphQLResponse_def resolveArray_def resolveArraySynchronous_def
  resolveArrayAsynchronous_def resolveString_def resolveInteger_def resolveBoolean_def
  resolveFloat_def resolveNull_def resolveEmptyArray_def resolveEmptyObject_def writeSafe_def Buffer_Write_def
  MergeBufPairs_def MergeBufPairData_def MergeBufPairErrors_def HasData_def HasErrors_def
  getBufPair_def prepareSingleFetch_def resolveSingleFetch_def literal_defs
  errChReceive_def mergeFetchErrors_def rangeKeys_def
  demo_def demoGet_def demoArrayEach_def demoLoad_def demoHeap_def
  helloShape_def petItem_def guarded_def guardedItem_def nameShape_def idShape_def
  guardedRoot_def leaking_def

declare Itoa.simps [simp del]

lemma resolveNull_eq: "resolveNull b = (None, b\<lparr>Data := Data b @ ''null''\<rparr>)"
  by (simp add: resolveNull_def writeSafe_def Buffer_Write_def null_def)

lemma variableName_0: "variableName 0 = ''$$0$$''"
  by code_simp

lemma scalar_String:
  assumes "\<forall>p. snd (snd (Get r None p))"
  shows "resolveNode r ctx (String path nullable) data h buf =
           scalarSpec r vtString inQuotes path nullable data h buf"
proof (cases data)
  case None
  with assms have "snd (snd (Get r data path))" by simp
  then show ?thesis
    by (auto simp: scalarSpec_def resolveString_def resolveNull_eq split: prod.splits)
next
  case (Some d)
  then show ?thesis
    by (auto simp: scalarSpec_def inQuotes_def resolveString_def resolveNull_eq writeSafe_def Buffer_Write_def
        quote_def split: prod.splits)
qed

lemma scalar_Boolean:
  "resolveNode r ctx (Boolean path nullable) data h buf =
     scalarSpec r vtBoolean raw path nullable data h buf"
  by (auto simp: scalarSpec_def raw_def resolveBoolean_def resolveNull_eq writeSafe_def Buffer_Write_def
      split: prod.splits)

lemma scalar_Integer:
  "resolveNode r ctx (Integer path nullable) data h buf =
     scalarSpec r Number raw path nullable data h buf"
  by (auto simp: scalarSpec_def raw_def resolveInteger_def resolveNull_eq writeSafe_def Buffer_Write_def
      split: prod.splits)

lemma scalar_Float:
  "resolveNode r ctx (Float path nullable) data h buf =
     scalarSpec r Number raw path nullable data h buf"
  by (auto simp: scalarSpec_def raw_def resolveFloat_def resolveNull_eq writeSafe_def Buffer_Write_def
      split: prod.splits)

lemma scalar_missing:
  assumes "snd (snd (Get r data path))"
  shows "resolveNode r ctx (String path False) data h buf
           = Some (Some errNonNullableFieldValueIsNull, h, buf)"
    and "resolveNode r ctx (Boolean path False) data h buf
           = Some (Some errNonNullableFieldValueIsNull, h, buf)"
    and "resolveNode r ctx (Integer path False) data h buf
           = Some (Some errNonNullableFieldValueIsNull, h, buf)"
    and "resolveNode r ctx (Float path False) data h buf
           = Some (Some errNonNullableFieldValueIsNull, h, buf)"
  using assms
  by (auto simp: resolveString_def resolveBoolean_def resolveInteger_def resolveFloat_def
      split: prod.splits)

subsection \<open>One step of the loops\<close>

lemma resolveFields_Cons:
  "resolveFields r ctx nullable (Field name val # fl) fsd rest s data h objectBuf fieldBuf skip first =
     (case resolveNode r ctx val fsd h fieldBuf of
        None \<Rightarrow> None
      | Some (Some e, h1, fb1) \<Rightarrow>
          if errorsIs e errNonNullableFieldValueIsNull \<and> nullable
          then Some (None, h1, objectBuf\<lparr>Data := ''null''\<rparr>)
          else Some (Some e, h1, objectBuf\<lparr>Data := Data objectBuf @ fieldStart first name\<rparr>)
      | Some (None, h1, fb1) \<Rightarrow>
          (case MergeBufPairs fb1 (objectBuf\<lparr>Data := Data objectBuf @ fieldStart first name\<rparr>) False of
             (dw, ew, fb2, ob1) \<Rightarrow>
               resolveFields r ctx nullable fl fsd rest s data h1 ob1 fb2 skip False))"
  by (simp add: writeSafe_def Buffer_Write_def fieldStart_def inQuotes_def literal_defs
      split: option.splits prod.splits)

lemma resolveFields_child_error:
  assumes "resolveNode r ctx val fsd h fieldBuf = Some (Some e, h1, fb1)"
  shows "resolveFields r ctx nullable (Field name val # fl) fsd rest s data h objectBuf fieldBuf skip first =
     (if errorsIs e errNonNullableFieldValueIsNull \<and> nullable
      then Some (None, h1, objectBuf\<lparr>Data := ''null''\<rparr>)
      else Some (Some e, h1, objectBuf\<lparr>Data := Data objectBuf @ fieldStart first name\<rparr>))"
  using assms by (simp add: resolveFields_Cons del: resolveFields.simps)

lemma sync_loop_item_error:
  assumes "item x h itemBuf = Some (Some errNonNullableFieldValueIsNull, h1, ib1)"
  shows "resolveArraySynchronous_loop item nullable (x # xs) h itemBuf arrayBuf hp =
     (if nullable then Some (None, h1, arrayBuf\<lparr>Data := ''null''\<rparr>)
      else Some (Some errNonNullableFieldValueIsNull, h1, arrayBuf))"
  using assms by (simp add: resolveNull_eq)


lemma async_item_error:
  assumes "resolveArrayAsynchronous_tasks item xs h = Some (sent, h1, bufSlice)"
    and "errChReceive r sent = Some errNonNullableFieldValueIsNull"
  shows "resolveArrayAsynchronous r item nullable xs h arrayBuf =
     (if nullable then Some (None, h1, arrayBuf\<lparr>Data := ''null''\<rparr>)
      else Some (Some errNonNullableFieldValueIsNull, h1, arrayBuf\<lparr>Data := Data arrayBuf @ ''[''\<rparr>))"
  using assms
  by (simp add: resolveArrayAsynchronous_def resolveNull_eq writeSafe_def Buffer_Write_def lBrack_def)



subsection \<open>The response framer\<close>

lemma response_error:
  assumes "resolveNode r ctx response data h getBufPair = Some (Some e, h1, buf)"
  shows "ResolveGraphQLResponse r ctx response data h writer = Some (Some e, h1, writer)"
  using assms by (simp add: ResolveGraphQLResponse_def)

lemma response_envelope:
  assumes "Write r = Buffer_Write"
    and "resolveNode r ctx response data h getBufPair = Some (None, h1, buf)"
  shows "ResolveGraphQLResponse r ctx response data h writer = Some (None, h1, writer @ envelope buf)"
  using assms
  by (simp add: ResolveGraphQLResponse_def envelope_def writeSafe_def Buffer_Write_def literal_defs)

lemma response_null:
  assumes "Write r = Buffer_Write"
    and "resolveNode r ctx response data h getBufPair
           = Some (None, h1, \<lparr>Data = ''null'', Errors = []\<rparr>)"
  shows \<open>ResolveGraphQLResponse r ctx response data h writer
           = Some (None, h1, writer @ ''{"data":null}'')\<close>
  using response_envelope [OF assms] by (simp add: envelope_def)

subsection \<open>Errors of fetches\<close>

lemma resolveFetch_parallel:
  "resolveFetch r ctx (ParallelFetch fs) data h s = Some (e, h1, s1) \<Longrightarrow> e = None"
  by (auto split: option.splits)

lemma resolveFetch_single_error:
  "map_option fst (resolveFetch r ctx (SingleFetchPtr f) data h s) =
     map_option (\<lambda>(h1, s1). fst (resolveSingleFetch r (h1 f) (the (map_of s1 (BufferId (h1 f))))))
       (prepareSingleFetch r ctx f data h s)"
  by (auto split: option.splits prod.splits)

lemma resolveSingleFetch_returns:
  "fst (resolveSingleFetch r fetch buf) =
     (case inflightFetches r (Sum64 r (UniqueIdentifier r (DataSource fetch) @ Input fetch)) of
        Some inflight \<Rightarrow> inflight_err inflight
      | None \<Rightarrow> fst (Load r (DataSource fetch) (Input fetch) buf))"
  by (auto simp: resolveSingleFetch_def split: option.splits prod.splits)

lemma follower_copies:
  assumes "inflightFetches r (Sum64 r (UniqueIdentifier r (DataSource fetch) @ Input fetch))
             = Some inflight"
  shows "resolveSingleFetch r fetch getBufPair =
           (inflight_err inflight,
            \<lparr>Data = bytes (inflight_data inflight), Errors = bytes (inflight_errors inflight)\<rparr>)"
  using assms by (simp add: resolveSingleFetch_def getBufPair_def)

lemma sameBytes_resolveVariablesFrom:
  "sameBytes r r' \<Longrightarrow> resolveVariablesFrom r' ctx i vs data input = resolveVariablesFrom r ctx i vs data input"
  by (induction vs arbitrary: i input) (auto simp: sameBytes_def split: prod.splits option.splits Variable.splits)

lemma sameBytes_prepareSingleFetch:
  "sameBytes r r' \<Longrightarrow> prepareSingleFetch r' ctx f data h s = prepareSingleFetch r ctx f data h s"
  by (simp add: prepareSingleFetch_def resolveVariables_def sameBytes_resolveVariablesFrom)

lemma sameBytes_prepareFetches:
  "sameBytes r r' \<Longrightarrow> prepareFetches r' ctx fs data h s = prepareFetches r ctx fs data h s"
  by (induction fs arbitrary: h s) (auto simp: sameBytes_prepareSingleFetch split: option.splits)

lemma sameBytes_resolveSingleFetch:
  assumes "sameBytes r r'"
  shows "snd (resolveSingleFetch r' f buf) = snd (resolveSingleFetch r f buf)"
proof -
  let ?fp = "Sum64 r (UniqueIdentifier r (DataSource f) @ Input f)"
  from assms have fp: "Sum64 r' (UniqueIdentifier r' (DataSource f) @ Input f) = ?fp"
    by (simp add: sameBytes_def)
  from assms have d: "map_option inflight_data (inflightFetches r' ?fp)
                     = map_option inflight_data (inflightFetches r ?fp)"
    and e: "map_option inflight_errors (inflightFetches r' ?fp)
                     = map_option inflight_errors (inflightFetches r ?fp)"
    and l: "snd (Load r' (DataSource f) (Input f) buf) = snd (Load r (DataSource f) (Input f) buf)"
    by (simp_all add: sameBytes_def)
  show ?thesis
    using d e l unfolding resolveSingleFetch_def fp
    by (cases "inflightFetches r ?fp"; cases "inflightFetches r' ?fp")
       (auto split: prod.splits)
qed

lemma sameBytes_resolveFetches:
  "sameBytes r r' \<Longrightarrow> resolveFetches r' h fs s = resolveFetches r h fs s"
proof (induction fs arbitrary: s)
  case Nil
  then show ?case by simp
next
  case (Cons f fs)
  from sameBytes_resolveSingleFetch [OF Cons.prems, of "h f" "the (map_of s (BufferId (h f)))"]
    Cons.IH [OF Cons.prems]
  show ?case by (auto split: prod.splits)
qed

lemma sameBytes_parallel:
  "sameBytes r r' \<Longrightarrow>
   resolveFetch r' ctx (ParallelFetch fs) data h s = resolveFetch r ctx (ParallelFetch fs) data h s"
  by (auto simp: sameBytes_prepareFetches sameBytes_resolveFetches split: option.splits)

lemma resolveObject_fetch_error:
  assumes "resolveFetch r ctx fetch (if length path \<noteq> 0 then fst (Get r data path) else data) h []
             = Some (Some e, h1, s1)"
  shows "resolveNode r ctx (Object nullable path fieldSets (Some fetch)) data h objectBuf
           = Some (Some e, h1, objectBuf)"
  using assms by simp

subsection \<open>Where a nullable node lets the null failure through\<close>

lemma nullable_fields_catch:
  "resolveNode r ctx n data h b = resolveNode r ctx n data h b"
  "nullable \<Longrightarrow>
   resolveFieldSets r ctx nullable fss s data h objectBuf fieldBuf skip first = Some (Some e, h1, b1)
     \<Longrightarrow> \<not> errorsIs e errNonNullableFieldValueIsNull"
  "nullable \<Longrightarrow>
   resolveFields r ctx nullable fl fsd fss s data h objectBuf fieldBuf skip first = Some (Some e, h1, b1)
     \<Longrightarrow> \<not> errorsIs e errNonNullableFieldValueIsNull"
proof (induction r ctx n data h b and r ctx nullable fss s data h objectBuf fieldBuf skip first
    and r ctx nullable fl fsd fss s data h objectBuf fieldBuf skip first
    arbitrary: and e h1 b1 and e h1 b1
    rule: resolveNode_resolveFieldSets_resolveFields.induct)
  case (10 r ctx nullable s data h objectBuf fieldBuf typeNameSkip first)
  then show ?case by (auto simp: resolveNull_eq writeSafe_def Buffer_Write_def split: if_splits)
next
  case (11 r ctx nullable onTypeName bufferID hasBuffer fieldList rest s data h objectBuf fieldBuf typeNameSkip first)
  then show ?case
    by (auto split: option.splits if_splits)
next
  case (12 r ctx nullable fieldSetData rest s data h objectBuf fieldBuf typeNameSkip first)
  then show ?case by simp
next
  case (13 r ctx nullable name val fieldList fieldSetData rest s data h objectBuf fieldBuf typeNameSkip first)
  let ?ob = "objectBuf\<lparr>Data := Data objectBuf @ (if first then lBrace else comma) @ quote @ name @ quote @ colon\<rparr>"
  show ?case
  proof (cases "resolveNode r ctx val fieldSetData h fieldBuf")
    case None
    with "13.prems" show ?thesis by (simp add: writeSafe_def Buffer_Write_def)
  next
    case (Some res)
    obtain ce ch cb where res: "res = (ce, ch, cb)" by (cases res)
    show ?thesis
    proof (cases ce)
      case None
      obtain dw ew fb2 ob1 where m: "MergeBufPairs cb ?ob False = (dw, ew, fb2, ob1)"
        by (cases "MergeBufPairs cb ?ob False")
      from "13.prems" Some res None m
      have run: "resolveFields r ctx nullable fieldList fieldSetData rest s data ch ob1 fb2
              typeNameSkip False = Some (Some e, h1, b1)"
        by (simp add: writeSafe_def Buffer_Write_def)
      show ?thesis
        using "13.IH"(2) "13.prems"(1) Some res None m run
        by (simp add: writeSafe_def Buffer_Write_def)
    next
      case er: (Some x)
      with "13.prems" Some res show ?thesis
        by (auto simp: writeSafe_def Buffer_Write_def split: if_splits)
    qed
  qed
qed simp_all

lemma nullable_sync_catch:
  "resolveArraySynchronous_loop item True xs h itemBuf arrayBuf hp = Some (Some e, h1, b1)
     \<Longrightarrow> \<not> errorsIs e errNonNullableFieldValueIsNull"
proof (induction xs arbitrary: h itemBuf arrayBuf hp)
  case Nil
  then show ?case by (simp add: writeSafe_def Buffer_Write_def)
next
  case (Cons x xs)
  then show ?case
    by (auto simp: resolveNull_eq split: option.splits prod.splits if_splits)
qed

lemma nullable_async_catch:
  "resolveArrayAsynchronous r item True xs h arrayBuf = Some (Some e, h1, b1)
     \<Longrightarrow> \<not> errorsIs e errNonNullableFieldValueIsNull"
  by (auto simp: resolveArrayAsynchronous_def writeSafe_def Buffer_Write_def resolveNull_eq
      split: option.splits prod.splits if_splits)

lemma nullable_own_fetch:
  assumes "Nullable n"
    and "resolveNode r ctx n data h b = Some (Some e, h1, b1)"
    and "errorsIs e errNonNullableFieldValueIsNull"
  shows "ownFetchError r ctx n data h = Some e"
proof (cases n)
  case (Object nullable path fieldSets fetch)
  with assms(1) have nl: "nullable" by simp
  let ?d = "if length path \<noteq> 0 then fst (Get r data path) else data"
  show ?thesis
  proof (cases fetch)
    case None
    with assms(2) Object nullable_fields_catch(2) [OF nl] assms(3) show ?thesis
      by auto
  next
    case (Some f)
    show ?thesis
    proof (cases "resolveFetch r ctx f ?d h []")
      case None
      with assms(2) Object Some show ?thesis by simp
    next
      case fr: (Some res)
      obtain fe fh fs where res: "res = (fe, fh, fs)" by (cases res)
      show ?thesis
      proof (cases fe)
        case None
        with assms(2) Object Some fr res nullable_fields_catch(2) [OF nl] assms(3) show ?thesis
          by (auto split: prod.splits)
      next
        case er: (Some x)
        with assms(2) Object Some fr res show ?thesis by simp
      qed
    qed
  qed
next
  case (Array path nullable async item)
  with assms show ?thesis
    using nullable_sync_catch nullable_async_catch
    by (auto simp: resolveArray_def resolveArraySynchronous_def resolveNull_eq writeSafe_def
        Buffer_Write_def split: if_splits)
qed (use assms in \<open>auto simp: resolveNull_eq resolveString_def resolveBoolean_def resolveInteger_def
      resolveFloat_def resolveEmptyObject_def resolveEmptyArray_def writeSafe_def Buffer_Write_def
      split: prod.splits if_splits\<close>)

subsection \<open>The error buffer only grows\<close>













subsection \<open>The errors of a child are merged into its parent\<close>







subsection \<open>Where the two array modes agree\<close>

lemma MergeBufPairs_drains:
  "MergeBufPairs from to p = (dw, ew, from1, to1) \<Longrightarrow> from1 = getBufPair"
  by (auto simp: MergeBufPairs_def MergeBufPairData_def MergeBufPairErrors_def HasData_def
      HasErrors_def getBufPair_def split: if_splits)

lemma modes_agree_loop:
  "itemsSucceed item xs h \<Longrightarrow>
   \<exists>h1 bufSlice. resolveArrayAsynchronous_tasks item xs h = Some ([], h1, bufSlice)
     \<and> resolveArraySynchronous_loop item nullable xs h getBufPair arrayBuf hp =
         (case writeSafe Buffer_Write None (Data (resolveArrayAsynchronous_merge bufSlice arrayBuf hp)) rBrack of
            (e, w) \<Rightarrow> Some (e, h1, (resolveArrayAsynchronous_merge bufSlice arrayBuf hp)\<lparr>Data := w\<rparr>))"
proof (induction xs arbitrary: h arrayBuf hp)
  case Nil
  then show ?case by simp
next
  case (Cons x xs)
  from Cons.prems obtain h1 itemBuf where
    it: "item x h getBufPair = Some (None, h1, itemBuf)" and ok: "itemsSucceed item xs h1"
    by (auto split: option.splits prod.splits)
  obtain dw ew ib2 ab1 where m: "MergeBufPairs itemBuf arrayBuf hp = (dw, ew, ib2, ab1)"
    by (cases "MergeBufPairs itemBuf arrayBuf hp")
  have ib2: "ib2 = getBufPair" by (rule MergeBufPairs_drains [OF m])
  from Cons.IH [OF ok, of ab1 "if \<not> hp \<and> dw \<noteq> 0 then True else hp"]
  obtain h2 bufSlice where
    t: "resolveArrayAsynchronous_tasks item xs h1 = Some ([], h2, bufSlice)" and
    l: "resolveArraySynchronous_loop item nullable xs h1 getBufPair ab1
          (if \<not> hp \<and> dw \<noteq> 0 then True else hp) =
        (case writeSafe Buffer_Write None (Data (resolveArrayAsynchronous_merge bufSlice ab1
              (if \<not> hp \<and> dw \<noteq> 0 then True else hp))) rBrack of
           (e, w) \<Rightarrow> Some (e, h2, (resolveArrayAsynchronous_merge bufSlice ab1
              (if \<not> hp \<and> dw \<noteq> 0 then True else hp))\<lparr>Data := w\<rparr>))"
    by blast
  show ?case
    using it m ib2 t l by simp
qed

lemma modes_agree:
  assumes "itemsSucceed item arrayItems h"
  shows "resolveArraySynchronous item nullable arrayItems h arrayBuf =
         resolveArrayAsynchronous r item nullable arrayItems h arrayBuf"
proof -
  from modes_agree_loop [OF assms, of nullable "arrayBuf\<lparr>Data := Data arrayBuf @ lBrack\<rparr>" False]
  show ?thesis
    by (auto simp: resolveArraySynchronous_def resolveArrayAsynchronous_def errChReceive_def
        writeSafe_def Buffer_Write_def)
qed

subsection \<open>Substitution without markers\<close>

lemma replaceLoop_absent: "Index input name = None \<Longrightarrow> replaceLoop input name val = Some input"
  by (subst replaceLoop.simps) simp

lemma resolveVariablesFrom_fixpoint:
  "(\<forall>k<length vs. Index input (variableName (i + k)) = None)
   \<Longrightarrow> resolveVariablesFrom r ctx i vs data input = Some input"
proof (induction vs arbitrary: i)
  case Nil
  then show ?case by simp
next
  case (Cons v vs)
  from Cons.prems have here: "Index input (variableName i) = None"
    by force
  have rest: "\<forall>k<length vs. Index input (variableName (Suc i + k)) = None"
  proof (intro allI impI)
    fix k assume "k < length vs"
    then have "Suc k < length (v # vs)" by simp
    with Cons.prems have "Index input (variableName (i + Suc k)) = None" by blast
    then show "Index input (variableName (Suc i + k)) = None" by simp
  qed
  have step: "resolveVariablesFrom r ctx (Suc i) vs data input = Some input"
    by (rule Cons.IH [OF rest])
  show ?case
    by (simp add: replaceLoop_absent [OF here] step split: prod.splits Variable.splits)
qed

lemma Index_Some_occurs: "Index s sep = Some j \<Longrightarrow> s = take j s @ sep @ drop (j + length sep) s"
proof (induction s arbitrary: j)
  case Nil
  then show ?case by (auto split: if_splits)
next
  case (Cons c cs)
  show ?case
  proof (cases "take (length sep) (c # cs) = sep")
    case True
    with Cons.prems have "j = 0" by simp
    with True show ?thesis
      by (metis add_0 append_Nil append_take_drop_id take_0)
  next
    case False
    with Cons.prems obtain j' where j: "j = Suc j'" "Index cs sep = Some j'" by auto
    from Cons.IH [OF j(2)] j(1) show ?thesis by simp
  qed
qed

lemma Index_None_iff: "Index s sep = None \<longleftrightarrow> (\<nexists>pre suf. s = pre @ sep @ suf)"
proof (induction s)
  case Nil
  then show ?case by auto
next
  case (Cons c cs)
  show ?case
  proof
    assume n: "Index (c # cs) sep = None"
    then have np: "take (length sep) (c # cs) \<noteq> sep" and nr: "Index cs sep = None"
      by (auto split: if_splits)
    show "\<nexists>pre suf. c # cs = pre @ sep @ suf"
    proof
      assume "\<exists>pre suf. c # cs = pre @ sep @ suf"
      then obtain pre suf where e: "c # cs = pre @ sep @ suf" by blast
      show False
      proof (cases pre)
        case Nil
        with e have "take (length sep) (c # cs) = sep" by simp
        with np show False by simp
      next
        case (Cons p ps)
        with e have "cs = ps @ sep @ suf" by simp
        with nr Cons.IH show False by blast
      qed
    qed
  next
    assume a: "\<nexists>pre suf. c # cs = pre @ sep @ suf"
    show "Index (c # cs) sep = None"
    proof (cases "Index (c # cs) sep")
      case None
      then show ?thesis .
    next
      case (Some j)
      from Index_Some_occurs [OF this] a show ?thesis by blast
    qed
  qed
qed

section \<open>The claims of the specification\<close>

subsection \<open>Errors returned by a data source\<close>

text \<open>
  Claim C1, as amended. The specification says that the error of \<open>DataSource.Load\<close> is
  swallowed in both fetch modes. It is swallowed in the \<open>ParallelFetch\<close> mode only: there
  \<open>resolveFetch\<close> returns nil whatever the sub-fetches return (fourth conjunct), and its
  result is the same for collaborators that give the same bytes and other errors, so the
  fetches act through the bytes written into the buffer pairs alone (last conjunct). In the
  \<open>SingleFetch\<close> mode \<open>resolveFetch\<close> returns the error of \<open>resolveSingleFetch\<close> (second conjunct), which is
  the error of \<open>Load\<close> for a leader and the error recorded by the leader for a follower (third
  conjunct); \<open>resolveObject\<close> then returns that error at once and leaves its buffer pair as it
  was (first conjunct).
\<close>

theorem C1_fetch_errors:
  assumes "resolveFetch r ctx fetch (if length path \<noteq> 0 then fst (Get r data path) else data) h []
             = Some (Some e, hf, sf)"
    and "sameBytes r r'"
  shows "resolveNode r ctx (Object nullable path fieldSets (Some fetch)) data h objectBuf
           = Some (Some e, hf, objectBuf)
       \<and> map_option fst (resolveFetch r ctx (SingleFetchPtr f) dataS hS setS) =
           map_option (\<lambda>(hp, sp). fst (resolveSingleFetch r (hp f) (the (map_of sp (BufferId (hp f))))))
             (prepareSingleFetch r ctx f dataS hS setS)
       \<and> fst (resolveSingleFetch r single buf) =
           (case inflightFetches r (Sum64 r (UniqueIdentifier r (DataSource single) @ Input single)) of
              Some inflight \<Rightarrow> inflight_err inflight
            | None \<Rightarrow> fst (Load r (DataSource single) (Input single) buf))
       \<and> map_option fst (resolveFetch r ctx (ParallelFetch fs) dataP hP setP) \<in> {None, Some None}
       \<and> resolveFetch r' ctx (ParallelFetch fs) dataP hP setP
           = resolveFetch r ctx (ParallelFetch fs) dataP hP setP"
proof (intro conjI)
  show "map_option fst (resolveFetch r ctx (ParallelFetch fs) dataP hP setP) \<in> {None, Some None}"
    by (auto split: option.splits)
qed (rule resolveObject_fetch_error [OF assms(1)] resolveFetch_single_error
      resolveSingleFetch_returns sameBytes_parallel [OF assms(2)])+

theorem C1_fetch_errors_witness:
  \<open>resolveFetch demo (Context None) (SingleFetchPtr 1) None demoHeap []
       = Some (Some (DataSourceError ''boom''), demoHeap, [(1, getBufPair)])
   \<and> sameBytes demo demoQuiet
   \<and> resolveNode demo (Context None) (Object True [] [] (Some (SingleFetchPtr 1))) None demoHeap
        \<lparr>Data = ''d'', Errors = ''e''\<rparr>
       = Some (Some (DataSourceError ''boom''), demoHeap, \<lparr>Data = ''d'', Errors = ''e''\<rparr>)
   \<and> resolveFetch demo (Context None) (ParallelFetch [1, 2]) None demoHeap []
       = Some (None, demoHeap,
               [(1, getBufPair), (0, \<lparr>Data = ''{}'', Errors = ''{"message":"boom"}''\<rparr>)])
   \<and> resolveFetch demoQuiet (Context None) (ParallelFetch [1, 2]) None demoHeap []
       = Some (None, demoHeap,
               [(1, getBufPair), (0, \<lparr>Data = ''{}'', Errors = ''{"message":"boom"}''\<rparr>)])\<close>
proof -
  have f: \<open>resolveFetch demo (Context None) (SingleFetchPtr 1)
             (if length ([] :: string list) \<noteq> 0 then fst (Get demo None []) else None) demoHeap []
           = Some (Some (DataSourceError ''boom''), demoHeap, [(1, getBufPair)])\<close>
    by (simp add: run_defs)
  have q: "sameBytes demo demoQuiet"
    by (simp add: sameBytes_def demoQuiet_def demo_def)
  have p: \<open>resolveFetch demo (Context None) (ParallelFetch [1, 2]) None demoHeap []
       = Some (None, demoHeap,
               [(1, getBufPair), (0, \<lparr>Data = ''{}'', Errors = ''{"message":"boom"}''\<rparr>)])\<close>
    by (simp add: run_defs)
  show ?thesis
    using f q p
      C1_fetch_errors [OF f q, where nullable = True and fieldSets = "[]"
        and objectBuf = "\<lparr>Data = ''d'', Errors = ''e''\<rparr>" and fs = "[1, 2]" and dataP = None
        and hP = demoHeap and setP = "[]"]
    by simp
qed

text \<open>
  The sentence of the specification fails for a single fetch on data source 1, whose \<open>Load\<close>
  returns the error \<open>boom\<close>: \<open>resolveFetch\<close> returns the error, and so does
  \<open>ResolveGraphQLResponse\<close> for an object with that fetch, without writing a byte.
\<close>

theorem C1_counterexample:
  \<open>Load demo (DataSource (demoHeap 1)) (Input (demoHeap 1)) getBufPair
     = (Some (DataSourceError ''boom''), getBufPair)
   \<and> resolveFetch demo (Context None) (SingleFetchPtr 1) None demoHeap []
       = Some (Some (DataSourceError ''boom''), demoHeap, [(1, getBufPair)])
   \<and> ResolveGraphQLResponse demo (Context None) (Object True [] [] (Some (SingleFetchPtr 1)))
        None demoHeap []
       = Some (Some (DataSourceError ''boom''), demoHeap, [])\<close>
  by (simp add: run_defs)

subsection \<open>Null propagation\<close>

text \<open>
  Claim C2, as amended. A non-nullable scalar whose value is missing fails with
  \<open>errNonNullableFieldValueIsNull\<close> (first conjunct). An object (second conjunct) or a
  synchronous array (third conjunct) that receives this failure from a child passes it up if it
  is not nullable; if it is nullable it returns no error and its data becomes exactly \<open>null\<close>,
  so that everything already written inside it is erased. An asynchronous array does the same
  with the error that \<open>errCh\<close> kept, which is the error of the goroutine that sent first
  (fourth conjunct). A nullable node returns an error that is the failure only when the fetch
  of the node itself returned that error (fifth conjunct): a failure that comes from below
  stops at the nearest nullable ancestor. When the failure reaches the root,
  \<open>ResolveGraphQLResponse\<close> returns it and writes no envelope (sixth conjunct); on a sink
  that takes every write the envelope is \<open>{"data":null}\<close> when the root rendered \<open>null\<close> and
  no errors were collected (seventh conjunct). So \<open>"data":null\<close> appears when the nearest
  nullable ancestor is the root, not when there is no nullable ancestor.
\<close>

theorem C2_null_propagation:
  \<open>(snd (snd (Get r leafData path)) \<longrightarrow>
       resolveNode r ctx (String path False) leafData h buf
         = Some (Some errNonNullableFieldValueIsNull, h, buf)
     \<and> resolveNode r ctx (Boolean path False) leafData h buf
         = Some (Some errNonNullableFieldValueIsNull, h, buf)
     \<and> resolveNode r ctx (Integer path False) leafData h buf
         = Some (Some errNonNullableFieldValueIsNull, h, buf)
     \<and> resolveNode r ctx (Float path False) leafData h buf
         = Some (Some errNonNullableFieldValueIsNull, h, buf))
   \<and> (resolveNode r ctx val fsd h fieldBuf = Some (Some errNonNullableFieldValueIsNull, hf, fbf) \<longrightarrow>
       resolveFields r ctx nullable (Field name val # fl) fsd rest s data h objectBuf fieldBuf skip first
         = (if nullable then Some (None, hf, objectBuf\<lparr>Data := ''null''\<rparr>)
            else Some (Some errNonNullableFieldValueIsNull, hf,
                       objectBuf\<lparr>Data := Data objectBuf @ fieldStart first name\<rparr>)))
   \<and> (item x h itemBuf = Some (Some errNonNullableFieldValueIsNull, hs, ibs) \<longrightarrow>
       resolveArraySynchronous_loop item nullable (x # xs) h itemBuf arrayBuf hasPreviousItem
         = (if nullable then Some (None, hs, arrayBuf\<lparr>Data := ''null''\<rparr>)
            else Some (Some errNonNullableFieldValueIsNull, hs, arrayBuf)))
   \<and> (resolveArrayAsynchronous_tasks item arrayItems h = Some (sent, ht, bufSlice)
       \<and> errChReceive r sent = Some errNonNullableFieldValueIsNull \<longrightarrow>
       resolveArrayAsynchronous r item nullable arrayItems h arrayBuf
         = (if nullable then Some (None, ht, arrayBuf\<lparr>Data := ''null''\<rparr>)
            else Some (Some errNonNullableFieldValueIsNull, ht,
                       arrayBuf\<lparr>Data := Data arrayBuf @ ''[''\<rparr>)))
   \<and> (Nullable n \<and> resolveNode r ctx n data h b = Some (Some en, hn, bn)
       \<and> errorsIs en errNonNullableFieldValueIsNull \<longrightarrow>
       ownFetchError r ctx n data h = Some en)
   \<and> (resolveNode r ctx failing data h getBufPair = Some (Some e, he, be) \<longrightarrow>
       ResolveGraphQLResponse r ctx failing data h writer = Some (Some e, he, writer))
   \<and> (Write r = Buffer_Write
       \<and> resolveNode r ctx response data h getBufPair
           = Some (None, hr, \<lparr>Data = ''null'', Errors = []\<rparr>) \<longrightarrow>
       ResolveGraphQLResponse r ctx response data h writer
         = Some (None, hr, writer @ ''{"data":null}''))\<close>
  using scalar_missing [of r leafData path ctx h buf]
    resolveFields_child_error [of r ctx val fsd h fieldBuf errNonNullableFieldValueIsNull hf fbf nullable]
    sync_loop_item_error [of item x h itemBuf hs ibs nullable]
    async_item_error [of item arrayItems h sent ht bufSlice r nullable]
    nullable_own_fetch [of n r ctx data h b en hn bn]
    response_error [of r ctx failing data h e he be]
    response_null [of r ctx response data h hr]
  by simp

theorem C2_null_propagation_witness:
  \<open>snd (snd (Get demo (Some ''{}'') [''greeting'']))
   \<and> resolveNode demo (Context None) (String [''greeting''] False) (Some ''{}'') demoHeap getBufPair
     = Some (Some errNonNullableFieldValueIsNull, demoHeap, getBufPair)
   \<and> resolveFields demo (Context None) False [Field ''hello'' (String [''greeting''] False)]
        (Some ''{}'') [] None (Some ''{}'') demoHeap getBufPair getBufPair False True
     = Some (Some errNonNullableFieldValueIsNull, demoHeap, \<lparr>Data = ''{"hello":'', Errors = []\<rparr>)
   \<and> resolveArraySynchronous_loop (resolveNode demo (Context None) (String [''greeting''] False))
        False [Some ''{}''] demoHeap getBufPair \<lparr>Data = ''['', Errors = []\<rparr> False
     = Some (Some errNonNullableFieldValueIsNull, demoHeap, \<lparr>Data = ''['', Errors = []\<rparr>)
   \<and> resolveArrayAsynchronous_tasks
        (resolveNode demo (Context None) (String [''greeting''] False)) [Some ''{}''] demoHeap
     = Some ([errNonNullableFieldValueIsNull], demoHeap, [getBufPair])
   \<and> errChReceive demo [errNonNullableFieldValueIsNull] = Some errNonNullableFieldValueIsNull
   \<and> resolveArrayAsynchronous demo (resolveNode demo (Context None) (String [''greeting''] False))
        False [Some ''{}''] demoHeap \<lparr>Data = ''['', Errors = []\<rparr>
     = Some (Some errNonNullableFieldValueIsNull, demoHeap, \<lparr>Data = ''[['', Errors = []\<rparr>)
   \<and> Nullable leaking
   \<and> resolveNode demo (Context None) leaking (Some ''{}'') demoHeap getBufPair
     = Some (Some errNonNullableFieldValueIsNull, demoHeap, getBufPair)
   \<and> errorsIs errNonNullableFieldValueIsNull errNonNullableFieldValueIsNull
   \<and> ownFetchError demo (Context None) leaking (Some ''{}'') demoHeap
     = Some errNonNullableFieldValueIsNull
   \<and> ResolveGraphQLResponse demo (Context None) (helloShape False) (Some ''{}'') demoHeap ''out''
     = Some (Some errNonNullableFieldValueIsNull, demoHeap, ''out'')
   \<and> Write demo = Buffer_Write
   \<and> ResolveGraphQLResponse demo (Context None) (helloShape True) (Some ''{}'') demoHeap ''out''
     = Some (None, demoHeap, ''out{"data":null}'')\<close>
proof -
  have miss: \<open>snd (snd (Get demo (Some ''{}'') [''greeting'']))\<close>
    by (simp add: run_defs)
  have leaf: \<open>resolveNode demo (Context None) (String [''greeting''] False) (Some ''{}'') demoHeap
      getBufPair = Some (Some errNonNullableFieldValueIsNull, demoHeap, getBufPair)\<close>
    by (simp add: run_defs)
  have tasks: \<open>resolveArrayAsynchronous_tasks
      (resolveNode demo (Context None) (String [''greeting''] False)) [Some ''{}''] demoHeap
     = Some ([errNonNullableFieldValueIsNull], demoHeap, [getBufPair])\<close>
    by (simp add: run_defs)
  have recv: "errChReceive demo [errNonNullableFieldValueIsNull]
      = Some errNonNullableFieldValueIsNull"
    by (simp add: errChReceive_def demo_def)
  have nl: "Nullable leaking"
    by (simp add: leaking_def)
  have leak: \<open>resolveNode demo (Context None) leaking (Some ''{}'') demoHeap getBufPair
     = Some (Some errNonNullableFieldValueIsNull, demoHeap, getBufPair)\<close>
    by (simp add: run_defs)
  have sink: "Write demo = Buffer_Write"
    by (simp add: demo_def)
  have failing: \<open>resolveNode demo (Context None) (helloShape False) (Some ''{}'') demoHeap getBufPair
     = Some (Some errNonNullableFieldValueIsNull, demoHeap, \<lparr>Data = ''{"hello":'', Errors = []\<rparr>)\<close>
    by (simp add: run_defs)
  have caught: \<open>resolveNode demo (Context None) (helloShape True) (Some ''{}'') demoHeap getBufPair
     = Some (None, demoHeap, \<lparr>Data = ''null'', Errors = []\<rparr>)\<close>
    by (simp add: run_defs)
  show ?thesis
    using miss leaf tasks recv nl leak sink failing caught
      C2_null_propagation [where r = demo and ctx = "Context None" and leafData = \<open>Some ''{}''\<close>
        and path = "[''greeting'']" and h = demoHeap and buf = getBufPair
        and val = "String [''greeting''] False" and fsd = \<open>Some ''{}''\<close> and fieldBuf = getBufPair
        and hf = demoHeap and fbf = getBufPair and nullable = False and name = "''hello''"
        and fl = "[]" and rest = "[]" and s = None and data = \<open>Some ''{}''\<close>
        and objectBuf = getBufPair and skip = False and first = True
        and item = "resolveNode demo (Context None) (String [''greeting''] False)"
        and x = \<open>Some ''{}''\<close> and itemBuf = getBufPair and hs = demoHeap and ibs = getBufPair
        and xs = "[]" and arrayBuf = \<open>\<lparr>Data = ''['', Errors = []\<rparr>\<close>
        and hasPreviousItem = False and arrayItems = \<open>[Some ''{}'']\<close>
        and sent = "[errNonNullableFieldValueIsNull]"
        and ht = demoHeap and bufSlice = "[getBufPair]" and n = leaking
        and b = getBufPair and en = errNonNullableFieldValueIsNull and hn = demoHeap
        and bn = getBufPair
        and failing = "helloShape False" and e = errNonNullableFieldValueIsNull and he = demoHeap
        and be = \<open>\<lparr>Data = ''{"hello":'', Errors = []\<rparr>\<close>
        and response = "helloShape True" and hr = demoHeap and writer = "''out''"]
    by (simp add: fieldStart_def inQuotes_def getBufPair_def
        del: resolveNode.simps resolveFields.simps resolveFieldSets.simps
          resolveArraySynchronous_loop.simps resolveArrayAsynchronous_tasks.simps
          ownFetchError.simps)
qed

text \<open>
  The sentence of the specification fails in both directions on the data \<open>{}\<close>: with a
  non-nullable root the required string has no nullable ancestor and no envelope is written at
  all; with a nullable root it has one and the envelope is \<open>{"data":null}\<close>.
\<close>

theorem C2_counterexample:
  \<open>ResolveGraphQLResponse demo (Context None) (helloShape False) (Some ''{}'') demoHeap []
     = Some (Some errNonNullableFieldValueIsNull, demoHeap, [])
   \<and> ResolveGraphQLResponse demo (Context None) (helloShape True) (Some ''{}'') demoHeap []
     = Some (None, demoHeap, ''{"data":null}'')\<close>
  by (simp add: run_defs)

subsection \<open>A field set whose buffer is missing\<close>




subsection \<open>Synchronous and asynchronous arrays\<close>

text \<open>
  Claim C4: resolving an array with \<open>ResolveAsynchronous\<close> gives the same \<open>Data\<close> and \<open>Errors\<close>
  bytes as resolving it without. The code misses this for an item that is skipped after output
  was written for it (first two conjuncts). In a list of pets whose \<open>owner\<close> selects fields on
  \<open>Person\<close> only, the owner of the one pet is an \<open>Org\<close>: the owner object returns
  \<open>errTypeNameSkipped\<close> after the pet object wrote \<open>{"owner":\<close>. The synchronous loop skips the
  item without merging its buffer; the asynchronous one merges the buffers of all items. The
  code also misses it when a nullable array catches a failure after an earlier item brought
  entries for the error list (last two conjuncts): the synchronous loop has merged them, the
  asynchronous one drops the buffers of its items. (By \<open>modes_agree\<close> the two modes give the
  same result when every item resolves without an error.)
\<close>

theorem C4_async_differs:
  \<open>resolveNode demo (Context None) (Array [''pets''] False False petItem)
      (Some ''{"pets":[{"owner":{"__typename":"Org"}}]}'') demoHeap getBufPair
    = Some (None, demoHeap, \<lparr>Data = ''[]'', Errors = []\<rparr>)
   \<and> resolveNode demo (Context None) (Array [''pets''] False True petItem)
      (Some ''{"pets":[{"owner":{"__typename":"Org"}}]}'') demoHeap getBufPair
    = Some (None, demoHeap, \<lparr>Data = ''[{"owner":]'', Errors = []\<rparr>)
   \<and> resolveNode demo (Context None) (Array [''pets''] True False guardedItem)
      (Some ''{"pets":[{"b":"x"},{}]}'') demoHeap getBufPair
    = Some (None, demoHeap, \<lparr>Data = ''null'', Errors = ''{"message":"boom"}''\<rparr>)
   \<and> resolveNode demo (Context None) (Array [''pets''] True True guardedItem)
      (Some ''{"pets":[{"b":"x"},{}]}'') demoHeap getBufPair
    = Some (None, demoHeap, \<lparr>Data = ''null'', Errors = []\<rparr>)\<close>
  by (simp add: run_defs)

subsection \<open>The shape tree after a call\<close>

text \<open>
  Claim C6: the resolver never changes the shape tree, \<open>SingleFetch.Input\<close> included. The code
  stores the substituted input in the fetch object: after a request with the variables
  \<open>{"id":1}\<close> the input of the fetch at address 0 is \<open>{"id":1}\<close> and no longer the template
  \<open>{"id":$$0$$}\<close>. A request with the variables \<open>{"id":2}\<close> on the shape as planned fetches with
  \<open>{"id":2}\<close>; on the shape left by the first request it fetches with \<open>{"id":1}\<close>.
\<close>

theorem C6_input_overwritten:
  \<open>Input (demoHeap 0) = ''{"id":$$0$$}''
   \<and> inputAfter 0 (ResolveGraphQLResponse demo (Context (Some ''{"id":1}'')) idShape None demoHeap [])
     = Some ''{"id":1}''
   \<and> inputAfter 0 (ResolveGraphQLResponse demo (Context (Some ''{"id":2}'')) idShape None demoHeap [])
     = Some ''{"id":2}''
   \<and> inputAfter 0 (ResolveGraphQLResponse demo (Context (Some ''{"id":2}'')) idShape None
        (heapAfter demoHeap
           (ResolveGraphQLResponse demo (Context (Some ''{"id":1}'')) idShape None demoHeap [])) [])
     = Some ''{"id":1}''\<close>
  by (simp add: run_defs inputAfter_def heapAfter_def resolveVariables_def variableName_0
      replaceLoop.simps)

subsection \<open>Arrays without elements\<close>

text \<open>
  Claim C7. For every \<open>Array\<close> node: when walking the input at the array's path yields no
  element, resolution fails with \<open>errNonNullableFieldValueIsNull\<close> if the array is not
  nullable, and appends the bytes \<open>null\<close> (not \<open>[]\<close>) to the data buffer if it is nullable.
  This holds in the synchronous and in the asynchronous mode, for every item shape.
\<close>

theorem C7_empty_array:
  assumes "ArrayEach r data path = []"
  shows "resolveNode r ctx (Array path nullable resolveAsynchronous item) data h arrayBuf =
           (if nullable then Some (None, h, arrayBuf\<lparr>Data := Data arrayBuf @ ''null''\<rparr>)
            else Some (Some errNonNullableFieldValueIsNull, h, arrayBuf))"
  using assms by (simp add: resolveArray_def resolveNull_eq)

theorem C7_empty_array_witness:
  \<open>ArrayEach demo (Some ''{}'') [''xs''] = []
   \<and> resolveNode demo (Context None) (Array [''xs''] True False Null) (Some ''{}'') demoHeap getBufPair
       = Some (None, demoHeap, \<lparr>Data = ''null'', Errors = []\<rparr>)
   \<and> resolveNode demo (Context None) (Array [''xs''] False True Null) (Some ''{}'') demoHeap getBufPair
       = Some (Some errNonNullableFieldValueIsNull, demoHeap, \<lparr>Data = [], Errors = []\<rparr>)\<close>
proof -
  have e: \<open>ArrayEach demo (Some ''{}'') [''xs''] = []\<close>
    by (simp add: demo_def demoArrayEach_def)
  show ?thesis
    using e C7_empty_array [OF e, of "Context None" True False Null demoHeap getBufPair]
      C7_empty_array [OF e, of "Context None" False True Null demoHeap getBufPair]
    by (simp add: getBufPair_def)
qed

subsection \<open>Scalars\<close>

text \<open>
  Claim C8. For every scalar node (\<open>String\<close>, \<open>Boolean\<close>, \<open>Integer\<close>, \<open>Float\<close>): when the
  extraction at the node's path fails or the extracted kind is not the node's kind
  (\<open>Number\<close> for \<open>Integer\<close> and \<open>Float\<close>, \<open>Boolean\<close> for \<open>Boolean\<close>, \<open>String\<close> for \<open>String\<close>),
  resolution emits \<open>null\<close> if the node is nullable and fails with
  \<open>errNonNullableFieldValueIsNull\<close> otherwise; on a kind match it writes the extracted bytes as
  they are, a \<open>String\<close> between double quotes. The assumption is a fact about jsonparser:
  \<open>Get\<close> on nil data returns an error, whatever the path.
\<close>

theorem C8_scalars:
  assumes "\<forall>p. snd (snd (Get r None p))"
  shows "resolveNode r ctx (String path nullable) data h buf =
           scalarSpec r vtString inQuotes path nullable data h buf
       \<and> resolveNode r ctx (Boolean path nullable) data h buf =
           scalarSpec r vtBoolean raw path nullable data h buf
       \<and> resolveNode r ctx (Integer path nullable) data h buf =
           scalarSpec r Number raw path nullable data h buf
       \<and> resolveNode r ctx (Float path nullable) data h buf =
           scalarSpec r Number raw path nullable data h buf"
  by (intro conjI) (rule scalar_String [OF assms] scalar_Boolean scalar_Integer scalar_Float)+

theorem C8_scalars_witness:
  \<open>(\<forall>p. snd (snd (Get demo None p)))
   \<and> resolveNode demo (Context None) (String [''greeting''] False) (Some ''{"greeting":"world"}'')
        demoHeap getBufPair
       = Some (None, demoHeap, \<lparr>Data = ''"world"'', Errors = []\<rparr>)
   \<and> resolveNode demo (Context None) (Integer [''greeting''] True) (Some ''{"greeting":"world"}'')
        demoHeap getBufPair
       = Some (None, demoHeap, \<lparr>Data = ''null'', Errors = []\<rparr>)
   \<and> resolveNode demo (Context None) (Integer [''id''] False) (Some ''{"id":1}'')
        demoHeap getBufPair
       = Some (None, demoHeap, \<lparr>Data = ''1'', Errors = []\<rparr>)
   \<and> resolveNode demo (Context None) (Boolean [''id''] False) (Some ''{"id":1}'')
        demoHeap getBufPair
       = Some (Some errNonNullableFieldValueIsNull, demoHeap, \<lparr>Data = [], Errors = []\<rparr>)\<close>
proof -
  have n: "\<forall>p. snd (snd (Get demo None p))"
    by (simp add: demo_def demoGet_def)
  show ?thesis
    using n
      C8_scalars [OF n, of "Context None" "[''greeting'']" False
        \<open>Some ''{"greeting":"world"}''\<close> demoHeap getBufPair]
      C8_scalars [OF n, of "Context None" "[''greeting'']" True
        \<open>Some ''{"greeting":"world"}''\<close> demoHeap getBufPair]
      C8_scalars [OF n, of "Context None" "[''id'']" False
        \<open>Some ''{"id":1}''\<close> demoHeap getBufPair]
    by (simp add: scalarSpec_def inQuotes_def raw_def demo_def demoGet_def getBufPair_def)
qed

subsection \<open>Substitution as a fixpoint\<close>

text \<open>
  Claim C9. For every variable list, context variables, parent data and input template: once a
  substitution pass has returned an output in which no marker \<open>$$i$$\<close> of the list occurs,
  substituting again with the same variables and data returns that output unchanged.
  \<open>Index out (variableName i) = None\<close> is the code's own search for the marker; by
  \<open>Index_None_iff\<close> it says that the marker is not a part of \<open>out\<close>.
\<close>

theorem C9_substitution_fixpoint:
  assumes "resolveVariables r ctx vars data input = Some out"
    and "\<forall>i<length vars. Index out (variableName i) = None"
  shows "resolveVariables r ctx vars data out = Some out"
  unfolding resolveVariables_def
  using assms(2) by (intro resolveVariablesFrom_fixpoint) simp

theorem C9_substitution_fixpoint_witness:
  \<open>resolveVariables demo (Context (Some ''{"id":1}'')) [ContextVariable [''id'']] None ''{"id":$$0$$}''
     = Some ''{"id":1}''
   \<and> Index ''{"id":1}'' (variableName 0) = None
   \<and> resolveVariables demo (Context (Some ''{"id":1}'')) [ContextVariable [''id'']] None ''{"id":1}''
     = Some ''{"id":1}''\<close>
proof -
  have a: \<open>resolveVariables demo (Context (Some ''{"id":1}'')) [ContextVariable [''id'']] None
             ''{"id":$$0$$}'' = Some ''{"id":1}''\<close>
    by (simp add: resolveVariables_def demo_def demoGet_def variableName_0 replaceLoop.simps)
  have b: \<open>\<forall>i<length [ContextVariable [''id'']]. Index ''{"id":1}'' (variableName i) = None\<close>
    by (simp add: variableName_0)
  have c: \<open>Index ''{"id":1}'' (variableName 0) = None\<close>
    by (simp add: variableName_0)
  from a c C9_substitution_fixpoint [OF a b] show ?thesis by blast
qed

subsection \<open>The error buffer when a failure is caught\<close>




end
